theory Spec2Isabelle
  imports Main "HOL-Library.Word" "HOL-Library.FSet"
begin

unbundle bit_operations_syntax

section \<open>Liftoff baseline assembler for RISC-V: condition mapping\<close>

text \<open>
  The portable comparison kinds of the baseline compiler (\<open>LiftoffCondition\<close>) and the
  condition codes of the target: \<open>Condition\<close> for integer branches and
  \<open>FPUCondition\<close> for floating-point compares.  Only the enumerators the file uses
  are listed.
\<close>

datatype LiftoffCondition =
    kEqual | kUnequal
  | kSignedLessThan | kSignedLessEqual | kSignedGreaterThan | kSignedGreaterEqual
  | kUnsignedLessThan | kUnsignedLessEqual | kUnsignedGreaterThan | kUnsignedGreaterEqual

datatype Condition = eq | ne | lt | le | gt | ge | ult | ule | ugt | uge

datatype FPUCondition = EQ | NE | LT | GE | LE | GT

text \<open>\<open>UNREACHABLE()\<close>, \<open>UNIMPLEMENTED()\<close>: a fatal stop of the compiler.\<close>

datatype fatal = Unreachable | Unimplemented

fun ToCondition :: "LiftoffCondition \<Rightarrow> Condition" where
  "ToCondition kEqual = eq"
| "ToCondition kUnequal = ne"
| "ToCondition kSignedLessThan = lt"
| "ToCondition kSignedLessEqual = le"
| "ToCondition kSignedGreaterThan = gt"
| "ToCondition kSignedGreaterEqual = ge"
| "ToCondition kUnsignedLessThan = ult"
| "ToCondition kUnsignedLessEqual = ule"
| "ToCondition kUnsignedGreaterThan = ugt"
| "ToCondition kUnsignedGreaterEqual = uge"

text \<open>
  \<open>ConditionToConditionCmpFPU\<close>: six cases return, the \<open>default\<close> case breaks out of
  the switch and reaches \<open>UNREACHABLE()\<close>.
\<close>

fun ConditionToConditionCmpFPU :: "LiftoffCondition \<Rightarrow> fatal + FPUCondition" where
  "ConditionToConditionCmpFPU kEqual = Inr EQ"
| "ConditionToConditionCmpFPU kUnequal = Inr NE"
| "ConditionToConditionCmpFPU kUnsignedLessThan = Inr LT"
| "ConditionToConditionCmpFPU kUnsignedGreaterEqual = Inr GE"
| "ConditionToConditionCmpFPU kUnsignedLessEqual = Inr LE"
| "ConditionToConditionCmpFPU kUnsignedGreaterThan = Inr GT"
| "ConditionToConditionCmpFPU _ = Inl Unreachable"

section \<open>Registers, operands and the emitted instructions\<close>

text \<open>
  Registers are identified by their hardware code.  A \<open>LiftoffRegister\<close> is either a
  general-purpose or a floating-point register; the vector register with the same code as
  a floating-point register is \<open>toV\<close> of it.
\<close>

type_synonym Register = nat
type_synonym DoubleRegister = nat
type_synonym VRegister = nat

datatype LiftoffRegister = GpReg (gp: Register) | FpReg (fp: DoubleRegister)

definition toV :: "DoubleRegister \<Rightarrow> VRegister" where
  "toV r = r"

text \<open>
  Modelled from the spec: the register constants are declared in the target's register
  file description, which is not part of the excerpt; "scratch registers are a
  distinguished subset never holding live user values".  The codes are those of the
  RISC-V integer and vector register files (\<open>x0\<close> \<dots> \<open>x31\<close>, \<open>v0\<close> \<dots> \<open>v31\<close>).
\<close>

definition zero_reg :: Register where "zero_reg = 0"
definition ra :: Register where "ra = 1"
definition sp :: Register where "sp = 2"
definition fp_reg :: Register where "fp_reg = 8"
definition kWasmInstanceRegister :: Register where "kWasmInstanceRegister = 10"
definition kScratchReg :: Register where "kScratchReg = 19"
definition kScratchReg2 :: Register where "kScratchReg2 = 20"
definition t6 :: Register where "t6 = 31"

definition v0 :: VRegister where "v0 = 0"
definition kSimd128ScratchReg3 :: VRegister where "kSimd128ScratchReg3 = 8"
definition kSimd128ScratchReg2 :: VRegister where "kSimd128ScratchReg2 = 23"
definition kSimd128ScratchReg :: VRegister where "kSimd128ScratchReg = 24"
definition kSimd128RegZero :: VRegister where "kSimd128RegZero = 25"

text \<open>
  Modelled from the spec: the sizes are constants of the target outside the excerpt.
  Value-spill slots are "8 bytes scalar"; the file shifts by \<open>64 - 8\<close> to zero-extend a
  byte in a general register, so registers and pointers are 64 bits wide; a RISC-V
  instruction is 4 bytes.
\<close>

definition kSystemPointerSize :: int where "kSystemPointerSize = 8"
definition kStackSlotSize :: int where "kStackSlotSize = 8"
definition sizeof_double :: int where "sizeof_double = 8"
definition kInstrSize :: int where "kInstrSize = 4"
definition KB :: int where "KB = 1024"

datatype MemOperand = MemOperand Register int

text \<open>
  Modelled from the spec: \<open>FieldMemOperand\<close> (declared outside the excerpt) addresses a
  field of a tagged heap object, "fixed-offset access to the instance-context structure";
  the pointer tag is 1.
\<close>

definition kHeapObjectTag :: int where "kHeapObjectTag = 1"

definition FieldMemOperand :: "Register \<Rightarrow> int \<Rightarrow> MemOperand" where
  "FieldMemOperand object offset = MemOperand object (offset - kHeapObjectTag)"

datatype VSew = E8 | E16 | E32 | E64
datatype Vlmul = m1 | m2 | m4 | m8 | mf2 | mf4 | mf8
datatype MaskType = Mask | NoMask
datatype FPURoundingMode = RNE | RTZ | RDN | RUP | RMM
datatype RuntimeStubId = kWasmStackOverflow
datatype RelocMode = WASM_STUB_CALL | WASM_CALL
datatype ValueKind = kI32 | kI64 | kF32 | kF64 | kS128 | kRef

type_synonym Label = string

text \<open>
  One constructor for each assembler call the modelled methods make, with the operands in
  the order of the call.  \<open>VU_set rd sew lmul\<close> is \<open>VU.set(rd, sew, lmul)\<close>, the
  write of the vector configuration; \<open>VU_set_rm\<close> is \<open>VU.set(FPURoundingMode)\<close>;
  \<open>not_instr\<close> is the call \<open>not_\<close>, \<open>Pop2\<close> the two-register \<open>Pop\<close>, \<open>bind_label\<close> is
  \<open>bind\<close>.
\<close>

datatype Instr =
    AddWord Register Register int
  | SubWord Register Register int
  | LoadWord Register MemOperand
  | StoreWord Register MemOperand
  | Sw Register MemOperand
  | LoadDouble DoubleRegister MemOperand
  | StoreDouble DoubleRegister MemOperand
  | Push Register
  | Pop2 Register Register
  | li Register int
  | andi Register Register int
  | not_instr Register Register
  | feq_s Register DoubleRegister DoubleRegister
  | feq_d Register DoubleRegister DoubleRegister
  | GenPCRelativeJump Register int
  | Branch Label Condition Register Register
  | Call RuntimeStubId RelocMode
  | stop
  | bind_label Label
  | VU_set Register VSew Vlmul
  | VU_set_rm FPURoundingMode
  | vmv_vv VRegister VRegister
  | vmv_vx VRegister Register
  | vmv_sx VRegister Register
  | vmv_xs Register VRegister
  | vfmv_fs DoubleRegister VRegister
  | vand_vv VRegister VRegister VRegister
  | vmfeq_vv VRegister VRegister VRegister
  | vfmin_vv VRegister VRegister VRegister MaskType
  | vfmax_vv VRegister VRegister VRegister MaskType
  | vfredmax_vs VRegister VRegister VRegister
  | vmerge_vx VRegister Register VRegister
  | vslidedown_vi VRegister VRegister nat
  | vsll_vx VRegister VRegister Register
  | vsra_vx VRegister VRegister Register
  | vsrl_vx VRegister VRegister Register
  | vsll_vi VRegister VRegister int
  | vsra_vi VRegister VRegister int
  | vsrl_vi VRegister VRegister int
  | vwaddu_vv VRegister VRegister VRegister
  | vwaddu_wx VRegister VRegister Register
  | vdivu_vx VRegister VRegister Register
  | vnclipu_vi VRegister VRegister nat

section \<open>Stack frame manager: patching the prologue\<close>

text \<open>
  What \<open>PatchPrepareStackFrame\<close> reads besides its argument \<open>offset\<close>: the total
  frame size, the assembler's \<open>pc_offset()\<close> at the call, the flags \<open>stack_size\<close>
  (in KB) and \<open>debug_code\<close>, the instance field offset of the stack limit address, and
  the number of bytes by which \<open>pc_offset()\<close> advances over a sequence of assembler calls
  (\<open>code_size\<close>; the encodings are chosen by the macro assembler, outside the excerpt, so
  it is a parameter).  The values the method computes with are C++ \<open>int\<close>s: words of 32
  bits, compared as signed numbers, whose arithmetic wraps around.  An \<open>int\<close> passed as an
  operand or as a jump distance is sign-extended.
\<close>

record PatchEnv =
  total_frame_size :: "32 word"
  pc_offset :: "32 word"
  stack_size :: "32 word"
  debug_code :: bool
  kRealStackLimitAddressOffset :: int
  code_size :: "Instr list \<Rightarrow> 32 word"

text \<open>
  What it produces: the code the patching assembler writes over the placeholder at
  \<open>offset\<close>, the out-of-line code appended to the instruction stream, and the pc offsets
  at which a safepoint is defined.
\<close>

record PatchResult =
  patched :: "Instr list"
  ool :: "Instr list"
  safepoints :: "32 word list"

definition PatchPrepareStackFrame :: "PatchEnv \<Rightarrow> 32 word \<Rightarrow> PatchResult" where
  "PatchPrepareStackFrame env offset =
    (let frame_size = total_frame_size env - word_of_int (2 * kSystemPointerSize) in
     if frame_size <s word_of_int (4 * KB) then
       \<lparr>patched = [AddWord sp sp (sint (- frame_size))], ool = [], safepoints = []\<rparr>
     else
       let imm32 = pc_offset env - offset;
           stack_limit = kScratchReg;
           check =
             (if frame_size <s stack_size env * 1024 then
                [LoadWord stack_limit
                   (FieldMemOperand kWasmInstanceRegister (kRealStackLimitAddressOffset env)),
                 LoadWord stack_limit (MemOperand stack_limit 0),
                 AddWord stack_limit stack_limit (sint frame_size),
                 Branch ''continuation'' uge sp stack_limit]
              else []);
           called = check @ [Call kWasmStackOverflow WASM_STUB_CALL];
           safepoint_pc = pc_offset env + code_size env called;
           allocated = called @ (if debug_code env then [stop] else [])
                       @ [bind_label ''continuation'', AddWord sp sp (sint (- frame_size))];
           func_start_offset = offset + word_of_int (2 * kInstrSize);
           imm32' = func_start_offset - (pc_offset env + code_size env allocated)
       in \<lparr>patched = [GenPCRelativeJump kScratchReg (sint imm32)],
           ool = allocated @ [GenPCRelativeJump kScratchReg (sint imm32')],
           safepoints = [safepoint_pc]\<rparr>)"

text \<open>
  Concrete inputs, for any encoding sizes \<open>cs\<close>: a frame of 4 KiB and one of 4 KiB less
  one byte with a stack of 984 KB, a frame of 2 MiB with the same stack, and a frame of
  4 KiB with a stack of 2097152 KB, for which \<open>stack_size * 1024\<close> wraps around.
\<close>

definition env_4k :: "(Instr list \<Rightarrow> 32 word) \<Rightarrow> PatchEnv" where
  "env_4k cs = \<lparr>total_frame_size = 4112, pc_offset = 400, stack_size = 984,
     debug_code = False, kRealStackLimitAddressOffset = 183, code_size = cs\<rparr>"

definition env_small :: "(Instr list \<Rightarrow> 32 word) \<Rightarrow> PatchEnv" where
  "env_small cs = \<lparr>total_frame_size = 4111, pc_offset = 400, stack_size = 984,
     debug_code = False, kRealStackLimitAddressOffset = 183, code_size = cs\<rparr>"

definition env_huge :: "(Instr list \<Rightarrow> 32 word) \<Rightarrow> PatchEnv" where
  "env_huge cs = \<lparr>total_frame_size = 2097168, pc_offset = 400, stack_size = 984,
     debug_code = True, kRealStackLimitAddressOffset = 183, code_size = cs\<rparr>"

definition env_wrap :: "(Instr list \<Rightarrow> 32 word) \<Rightarrow> PatchEnv" where
  "env_wrap cs = \<lparr>total_frame_size = 4112, pc_offset = 400, stack_size = 2097152,
     debug_code = False, kRealStackLimitAddressOffset = 183, code_size = cs\<rparr>"

section \<open>Unsupported operations: bailout\<close>

datatype LiftoffBailoutReason = kSuccess | kSimd | kRelaxedSimd | kOtherReason

text \<open>
  The part of the assembler object these methods touch: the instruction buffer and the
  record of an abandoned compilation.
\<close>

record LiftoffAssembler =
  buffer :: "Instr list"
  bailout_reason :: LiftoffBailoutReason
  bailout_detail :: string
  code_generation_aborted :: bool

text \<open>
  Modelled from the spec: \<open>AbortedCodeGeneration\<close> and \<open>bailout\<close> are declared
  outside the excerpt.  An unsupported operation is "signaled by an explicit abandonment
  call that aborts the whole function's baseline compilation, to be retried by a different
  compiler tier": the call records the reason of the first abandonment and aborts code
  generation; it emits nothing.
\<close>

definition AbortedCodeGeneration :: "LiftoffAssembler \<Rightarrow> LiftoffAssembler" where
  "AbortedCodeGeneration a = a\<lparr>code_generation_aborted := True\<rparr>"

definition AbortCompilation :: "LiftoffAssembler \<Rightarrow> LiftoffAssembler" where
  "AbortCompilation a = AbortedCodeGeneration a"

definition bailout ::
  "LiftoffBailoutReason \<Rightarrow> string \<Rightarrow> LiftoffAssembler \<Rightarrow> LiftoffAssembler" where
  "bailout reason detail a =
     (if bailout_reason a \<noteq> kSuccess then a
      else (AbortCompilation a)\<lparr>bailout_reason := reason, bailout_detail := detail\<rparr>)"

definition did_bailout :: "LiftoffAssembler \<Rightarrow> bool" where
  "did_bailout a = (bailout_reason a \<noteq> kSuccess)"

definition emit_i16x8_dot_i8x16_i7x16_s ::
  "LiftoffRegister \<Rightarrow> LiftoffRegister \<Rightarrow> LiftoffRegister \<Rightarrow> LiftoffAssembler \<Rightarrow> LiftoffAssembler" where
  "emit_i16x8_dot_i8x16_i7x16_s dst lhs rhs = bailout kSimd ''emit_i16x8_dot_i8x16_i7x16_s''"

definition emit_i32x4_dot_i8x16_i7x16_add_s ::
  "LiftoffRegister \<Rightarrow> LiftoffRegister \<Rightarrow> LiftoffRegister \<Rightarrow> LiftoffRegister
   \<Rightarrow> LiftoffAssembler \<Rightarrow> LiftoffAssembler" where
  "emit_i32x4_dot_i8x16_i7x16_add_s dst lhs rhs acc =
     bailout kSimd ''emit_i32x4_dot_i8x16_i7x16_add_s''"

definition emit_f32x4_qfma ::
  "LiftoffRegister \<Rightarrow> LiftoffRegister \<Rightarrow> LiftoffRegister \<Rightarrow> LiftoffRegister
   \<Rightarrow> LiftoffAssembler \<Rightarrow> LiftoffAssembler" where
  "emit_f32x4_qfma dst src1 src2 src3 = bailout kRelaxedSimd ''emit_f32x4_qfma''"

definition emit_f32x4_qfms ::
  "LiftoffRegister \<Rightarrow> LiftoffRegister \<Rightarrow> LiftoffRegister \<Rightarrow> LiftoffRegister
   \<Rightarrow> LiftoffAssembler \<Rightarrow> LiftoffAssembler" where
  "emit_f32x4_qfms dst src1 src2 src3 = bailout kRelaxedSimd ''emit_f32x4_qfms''"

definition emit_f64x2_qfma ::
  "LiftoffRegister \<Rightarrow> LiftoffRegister \<Rightarrow> LiftoffRegister \<Rightarrow> LiftoffRegister
   \<Rightarrow> LiftoffAssembler \<Rightarrow> LiftoffAssembler" where
  "emit_f64x2_qfma dst src1 src2 src3 = bailout kRelaxedSimd ''emit_f64x2_qfma''"

definition emit_f64x2_qfms ::
  "LiftoffRegister \<Rightarrow> LiftoffRegister \<Rightarrow> LiftoffRegister \<Rightarrow> LiftoffRegister
   \<Rightarrow> LiftoffAssembler \<Rightarrow> LiftoffAssembler" where
  "emit_f64x2_qfms dst src1 src2 src3 = bailout kRelaxedSimd ''emit_f64x2_qfms''"

section \<open>Vector lowering: the configuration write\<close>

text \<open>
  \<open>rhs % 32\<close> on C++ \<open>int\<close> truncates towards zero; \<open>is_uint5\<close> holds of
  \<open>0 \<dots> 31\<close>.
\<close>

definition c_rem :: "int \<Rightarrow> int \<Rightarrow> int" where
  "c_rem a b = sgn a * (\<bar>a\<bar> mod \<bar>b\<bar>)"

definition is_uint5 :: "int \<Rightarrow> bool" where
  "is_uint5 x = (0 \<le> x \<and> x < 32)"

definition emit_i8x16_splat :: "LiftoffRegister \<Rightarrow> LiftoffRegister \<Rightarrow> Instr list" where
  "emit_i8x16_splat dst src =
     [VU_set kScratchReg E8 m1,
      vmv_vx (toV (fp dst)) (gp src)]"

definition emit_i32x4_shl ::
  "LiftoffRegister \<Rightarrow> LiftoffRegister \<Rightarrow> LiftoffRegister \<Rightarrow> Instr list" where
  "emit_i32x4_shl dst lhs rhs =
     [VU_set kScratchReg E32 m1,
      andi (gp rhs) (gp rhs) (32 - 1),
      vsll_vx (toV (fp dst)) (toV (fp lhs)) (gp rhs)]"

definition emit_i32x4_shli :: "LiftoffRegister \<Rightarrow> LiftoffRegister \<Rightarrow> int \<Rightarrow> Instr list" where
  "emit_i32x4_shli dst lhs rhs =
     (if is_uint5 (c_rem rhs 32) then
        [vsll_vi (toV (fp dst)) (toV (fp lhs)) (c_rem rhs 32)]
      else
        [li kScratchReg (c_rem rhs 32),
         vsll_vx (toV (fp dst)) (toV (fp lhs)) kScratchReg])"

definition emit_i32x4_shri_s :: "LiftoffRegister \<Rightarrow> LiftoffRegister \<Rightarrow> int \<Rightarrow> Instr list" where
  "emit_i32x4_shri_s dst lhs rhs =
     VU_set kScratchReg E32 m1 #
     (if is_uint5 (c_rem rhs 32) then
        [vsra_vi (toV (fp dst)) (toV (fp lhs)) (c_rem rhs 32)]
      else
        [li kScratchReg (c_rem rhs 32),
         vsra_vx (toV (fp dst)) (toV (fp lhs)) kScratchReg])"

definition emit_i32x4_shri_u :: "LiftoffRegister \<Rightarrow> LiftoffRegister \<Rightarrow> int \<Rightarrow> Instr list" where
  "emit_i32x4_shri_u dst lhs rhs =
     VU_set kScratchReg E32 m1 #
     (if is_uint5 (c_rem rhs 32) then
        [vsrl_vi (toV (fp dst)) (toV (fp lhs)) (c_rem rhs 32)]
      else
        [li kScratchReg (c_rem rhs 32),
         vsrl_vx (toV (fp dst)) (toV (fp lhs)) kScratchReg])"

definition emit_i64x2_shli :: "LiftoffRegister \<Rightarrow> LiftoffRegister \<Rightarrow> int \<Rightarrow> Instr list" where
  "emit_i64x2_shli dst lhs rhs =
     VU_set kScratchReg E64 m1 #
     (if is_uint5 (c_rem rhs 64) then
        [vsll_vi (toV (fp dst)) (toV (fp lhs)) (c_rem rhs 64)]
      else
        [li kScratchReg (c_rem rhs 64),
         vsll_vx (toV (fp dst)) (toV (fp lhs)) kScratchReg])"

text \<open>
  \<open>emit_s128_set_if_nan\<close>; the \<open>DCHECK_EQ(lane_kind, kF64)\<close> of the else branch is a
  debug-build check and emits nothing.
\<close>

definition emit_s128_set_if_nan ::
  "Register \<Rightarrow> LiftoffRegister \<Rightarrow> Register \<Rightarrow> LiftoffRegister \<Rightarrow> ValueKind \<Rightarrow> Instr list" where
  "emit_s128_set_if_nan dst src tmp_gp tmp_s128 lane_kind =
     (let tmp_fp = fp tmp_s128 in
      [vfredmax_vs kSimd128ScratchReg (toV (fp src)) (toV (fp src)),
       vfmv_fs tmp_fp kSimd128ScratchReg]
      @ (if lane_kind = kF32 then [feq_s kScratchReg tmp_fp tmp_fp]
         else [feq_d kScratchReg tmp_fp tmp_fp])
      @ [not_instr kScratchReg kScratchReg,
         Sw kScratchReg (MemOperand dst 0)])"

text \<open>
  The instructions that read the vector configuration, and the write of it.  A method
  sets the configuration before its first vector instruction when a \<open>VU_set\<close> comes
  before any of them in what it emits.
\<close>

fun is_vector_instr :: "Instr \<Rightarrow> bool" where
  "is_vector_instr (vmv_vv vd vs) = True"
| "is_vector_instr (vmv_vx vd rs) = True"
| "is_vector_instr (vmv_sx vd rs) = True"
| "is_vector_instr (vmv_xs rd vs) = True"
| "is_vector_instr (vfmv_fs fd vs) = True"
| "is_vector_instr (vand_vv vd vs2 vs1) = True"
| "is_vector_instr (vmfeq_vv vd vs2 vs1) = True"
| "is_vector_instr (vfmin_vv vd vs2 vs1 mt) = True"
| "is_vector_instr (vfmax_vv vd vs2 vs1 mt) = True"
| "is_vector_instr (vfredmax_vs vd vs2 vs1) = True"
| "is_vector_instr (vmerge_vx vd rs vs2) = True"
| "is_vector_instr (vslidedown_vi vd vs2 u) = True"
| "is_vector_instr (vsll_vx vd vs2 rs) = True"
| "is_vector_instr (vsra_vx vd vs2 rs) = True"
| "is_vector_instr (vsrl_vx vd vs2 rs) = True"
| "is_vector_instr (vsll_vi vd vs2 i) = True"
| "is_vector_instr (vsra_vi vd vs2 i) = True"
| "is_vector_instr (vsrl_vi vd vs2 i) = True"
| "is_vector_instr (vwaddu_vv vd vs2 vs1) = True"
| "is_vector_instr (vwaddu_wx vd vs2 rs) = True"
| "is_vector_instr (vdivu_vx vd vs2 rs) = True"
| "is_vector_instr (vnclipu_vi vd vs2 u) = True"
| "is_vector_instr _ = False"

fun is_vector_config :: "Instr \<Rightarrow> bool" where
  "is_vector_config (VU_set rd sew lmul) = True"
| "is_vector_config _ = False"

fun configures_before_first_vector :: "Instr list \<Rightarrow> bool" where
  "configures_before_first_vector [] = True"
| "configures_before_first_vector (i # is) =
     (if is_vector_config i then True
      else if is_vector_instr i then False
      else configures_before_first_vector is)"

section \<open>The target machine\<close>

text \<open>
  Modelled from the spec: the instruction set ("a fixed vocabulary of instruction-emission
  calls \<dots> that this core treats as given") is outside the excerpt.  The state of the
  target the modelled sequences act on: general registers of 64 bits (\<open>zero_reg\<close> reads
  as 0 and ignores writes), floating-point registers, the vector register file, memory,
  and the vector configuration.

  The vector register file is a flat array of bytes, 16 bytes (128 bits) to a register:
  byte \<open>k\<close> of register \<open>r\<close> is at index \<open>16 * r + k\<close>, so a register group is a
  contiguous range and element \<open>i\<close> of width \<open>b\<close> bytes of the group starting at
  \<open>r\<close> is the little-endian number in the bytes from \<open>16 * r + i * b\<close> on.  Memory is
  read and written in 64-bit cells identified by their address.
\<close>

record machine =
  gpr :: "Register \<Rightarrow> 64 word"
  fpr :: "DoubleRegister \<Rightarrow> 64 word"
  vrf :: "nat \<Rightarrow> 8 word"
  mem :: "64 word \<Rightarrow> 64 word"
  vsew :: VSew
  vlmul :: Vlmul

definition rd_gpr :: "machine \<Rightarrow> Register \<Rightarrow> 64 word" where
  "rd_gpr s r = (if r = zero_reg then 0 else gpr s r)"

definition wr_gpr :: "Register \<Rightarrow> 64 word \<Rightarrow> machine \<Rightarrow> machine" where
  "wr_gpr r v s = (if r = zero_reg then s else s\<lparr>gpr := (gpr s)(r := v)\<rparr>)"

fun mem_addr :: "machine \<Rightarrow> MemOperand \<Rightarrow> 64 word" where
  "mem_addr s (MemOperand base off) = rd_gpr s base + of_int off"

definition do_AddWord :: "Register \<Rightarrow> Register \<Rightarrow> int \<Rightarrow> machine \<Rightarrow> machine" where
  "do_AddWord rd rs imm s = wr_gpr rd (rd_gpr s rs + of_int imm) s"

definition do_LoadWord :: "Register \<Rightarrow> MemOperand \<Rightarrow> machine \<Rightarrow> machine" where
  "do_LoadWord rd m s = wr_gpr rd (mem s (mem_addr s m)) s"

definition do_StoreWord :: "Register \<Rightarrow> MemOperand \<Rightarrow> machine \<Rightarrow> machine" where
  "do_StoreWord rs m s = s\<lparr>mem := (mem s)(mem_addr s m := rd_gpr s rs)\<rparr>"

text \<open>
  \<open>Push(src)\<close> is \<open>AddWord(sp, sp, -kSystemPointerSize); StoreWord(src, MemOperand(sp, 0))\<close>;
  \<open>Pop(src1, src2)\<close> loads \<open>src2\<close> from \<open>sp\<close>, \<open>src1\<close> from the slot above, and
  adds two slots to \<open>sp\<close>.
\<close>

definition do_Push :: "Register \<Rightarrow> machine \<Rightarrow> machine" where
  "do_Push src s =
     do_StoreWord src (MemOperand sp 0) (do_AddWord sp sp (- kSystemPointerSize) s)"

definition do_Pop2 :: "Register \<Rightarrow> Register \<Rightarrow> machine \<Rightarrow> machine" where
  "do_Pop2 src1 src2 s =
     do_AddWord sp sp (2 * kSystemPointerSize)
       (do_LoadWord src1 (MemOperand sp (1 * kSystemPointerSize))
         (do_LoadWord src2 (MemOperand sp (0 * kSystemPointerSize)) s))"

subsection \<open>Vector elements\<close>

fun sew_bytes :: "VSew \<Rightarrow> nat" where
  "sew_bytes E8 = 1"
| "sew_bytes E16 = 2"
| "sew_bytes E32 = 4"
| "sew_bytes E64 = 8"

text \<open>\<open>VLMAX\<close>: the bytes of the register group divided by the element width.\<close>

fun group_bytes :: "Vlmul \<Rightarrow> nat" where
  "group_bytes m1 = 16"
| "group_bytes m2 = 32"
| "group_bytes m4 = 64"
| "group_bytes m8 = 128"
| "group_bytes mf2 = 8"
| "group_bytes mf4 = 4"
| "group_bytes mf8 = 2"

definition vlmax :: "VSew \<Rightarrow> Vlmul \<Rightarrow> nat" where
  "vlmax sew lmul = group_bytes lmul div sew_bytes sew"

fun le_nat :: "8 word list \<Rightarrow> nat" where
  "le_nat [] = 0"
| "le_nat (x # xs) = unat x + 256 * le_nat xs"

definition velem :: "nat \<Rightarrow> (nat \<Rightarrow> 8 word) \<Rightarrow> VRegister \<Rightarrow> nat \<Rightarrow> nat" where
  "velem b V r i = le_nat (map (\<lambda>k. V (16 * r + i * b + k)) [0..<b])"

text \<open>Bit \<open>i\<close> of a register, and of the mask register \<open>v0\<close>.\<close>

definition vbit :: "(nat \<Rightarrow> 8 word) \<Rightarrow> VRegister \<Rightarrow> nat \<Rightarrow> bool" where
  "vbit V r i = bit (V (16 * r + i div 8)) (i mod 8)"

definition vmask :: "(nat \<Rightarrow> 8 word) \<Rightarrow> nat \<Rightarrow> bool" where
  "vmask V i = vbit V v0 i"

text \<open>
  Writing elements \<open>0 \<dots> n - 1\<close> of width \<open>b\<close> bytes of the group at \<open>r\<close>, element
  \<open>i\<close> with the low \<open>b\<close> bytes of \<open>f i\<close>; the other bytes keep their value (tail
  undisturbed).  Writing mask bits \<open>0 \<dots> n - 1\<close> of register \<open>r\<close>.
\<close>

definition vwrite ::
  "nat \<Rightarrow> nat \<Rightarrow> (nat \<Rightarrow> nat) \<Rightarrow> (nat \<Rightarrow> 8 word) \<Rightarrow> VRegister \<Rightarrow> (nat \<Rightarrow> 8 word)" where
  "vwrite b n f V r =
     (\<lambda>a. if 16 * r \<le> a \<and> a < 16 * r + n * b
          then of_nat (f ((a - 16 * r) div b) div 256 ^ ((a - 16 * r) mod b))
          else V a)"

definition vwrite_mask ::
  "nat \<Rightarrow> (nat \<Rightarrow> bool) \<Rightarrow> (nat \<Rightarrow> 8 word) \<Rightarrow> VRegister \<Rightarrow> (nat \<Rightarrow> 8 word)" where
  "vwrite_mask n p V r =
     (\<lambda>a. if 16 * r \<le> a \<and> a < 16 * r + 16
          then horner_sum of_bool 2
                 (map (\<lambda>j. if 8 * (a - 16 * r) + j < n then p (8 * (a - 16 * r) + j)
                            else bit (V a) j) [0..<8])
          else V a)"

text \<open>The signed value of an element of \<open>b\<close> bytes.\<close>

definition sext :: "nat \<Rightarrow> nat \<Rightarrow> int" where
  "sext b x = (if 2 ^ (8 * b - 1) \<le> x mod 256 ^ b
               then int (x mod 256 ^ b) - 256 ^ b else int (x mod 256 ^ b))"

subsection \<open>Floating-point elements, by their bit patterns\<close>

text \<open>
  A binary floating-point number of \<open>ew\<close> exponent and \<open>mw\<close> fraction bits: it is a NaN
  when the exponent is all ones and the fraction is not zero; \<open>fp_key\<close> orders the
  patterns that are not NaN as the numbers they stand for, with \<open>-0\<close> below \<open>+0\<close>.
  \<open>fp_eq\<close>, \<open>fp_min\<close> and \<open>fp_max\<close> are the target's compare, minimum and maximum:
  a compare with a NaN is false; minimum and maximum of a number and a NaN are the number,
  of two NaNs the canonical NaN.
\<close>

definition fp_is_nan :: "nat \<Rightarrow> nat \<Rightarrow> nat \<Rightarrow> bool" where
  "fp_is_nan ew mw x = ((x div 2 ^ mw) mod 2 ^ ew = 2 ^ ew - 1 \<and> x mod 2 ^ mw \<noteq> 0)"

definition fp_key :: "nat \<Rightarrow> nat \<Rightarrow> nat \<Rightarrow> int" where
  "fp_key ew mw x =
     (if (x div 2 ^ (ew + mw)) mod 2 = 1 then - int (x mod 2 ^ (ew + mw)) - 1
      else int (x mod 2 ^ (ew + mw)))"

definition fp_canonical_nan :: "nat \<Rightarrow> nat \<Rightarrow> nat" where
  "fp_canonical_nan ew mw = (2 ^ ew - 1) * 2 ^ mw + 2 ^ (mw - 1)"

definition fp_eq :: "nat \<Rightarrow> nat \<Rightarrow> nat \<Rightarrow> nat \<Rightarrow> bool" where
  "fp_eq ew mw x y =
     (\<not> fp_is_nan ew mw x \<and> \<not> fp_is_nan ew mw y
      \<and> (x = y \<or> (x mod 2 ^ (ew + mw) = 0 \<and> y mod 2 ^ (ew + mw) = 0)))"

definition fp_min :: "nat \<Rightarrow> nat \<Rightarrow> nat \<Rightarrow> nat \<Rightarrow> nat" where
  "fp_min ew mw x y =
     (if fp_is_nan ew mw x \<and> fp_is_nan ew mw y then fp_canonical_nan ew mw
      else if fp_is_nan ew mw x then y
      else if fp_is_nan ew mw y then x
      else if fp_key ew mw x \<le> fp_key ew mw y then x else y)"

definition fp_max :: "nat \<Rightarrow> nat \<Rightarrow> nat \<Rightarrow> nat \<Rightarrow> nat" where
  "fp_max ew mw x y =
     (if fp_is_nan ew mw x \<and> fp_is_nan ew mw y then fp_canonical_nan ew mw
      else if fp_is_nan ew mw x then y
      else if fp_is_nan ew mw y then x
      else if fp_key ew mw y \<le> fp_key ew mw x then x else y)"

text \<open>The exponent and fraction widths of the floating-point format of an element width.\<close>

fun fp_format :: "VSew \<Rightarrow> (nat \<times> nat) option" where
  "fp_format E32 = Some (8, 23)"
| "fp_format E64 = Some (11, 52)"
| "fp_format _ = None"

subsection \<open>Execution\<close>

text \<open>
  Every vector instruction reads its operands from the state before it and writes elements
  \<open>0 \<dots> vl - 1\<close>, where \<open>vl\<close> is \<open>VLMAX\<close> of the configuration in force (the
  configuration write is \<open>vsetvli\<close> with \<open>rd\<close> receiving \<open>VLMAX\<close>, tail and mask
  undisturbed).  A widening instruction writes elements of twice the width, so a group of
  two registers from \<open>vd\<close> on, and a narrowing instruction reads such a group from
  \<open>vs2\<close> on; the encodings the vector extension reserves there (a widening destination
  that starts at a source register, a narrowing destination that is the upper register of
  its source group) and every instruction whose effect is not modelled (of the narrowing
  clip, every shift amount but 0) yield \<open>None\<close>.
\<close>

definition vl :: "machine \<Rightarrow> nat" where
  "vl s = vlmax (vsew s) (vlmul s)"

definition vupd :: "(nat \<Rightarrow> 8 word) \<Rightarrow> machine \<Rightarrow> machine option" where
  "vupd V s = Some (s\<lparr>vrf := V\<rparr>)"

fun exec :: "Instr \<Rightarrow> machine \<Rightarrow> machine option" where
  "exec (AddWord rd rs imm) s = Some (do_AddWord rd rs imm s)"
| "exec (LoadWord rd m) s = Some (do_LoadWord rd m s)"
| "exec (StoreWord rs m) s = Some (do_StoreWord rs m s)"
| "exec (LoadDouble fd m) s = Some (s\<lparr>fpr := (fpr s)(fd := mem s (mem_addr s m))\<rparr>)"
| "exec (StoreDouble fs m) s = Some (s\<lparr>mem := (mem s)(mem_addr s m := fpr s fs)\<rparr>)"
| "exec (Push src) s = Some (do_Push src s)"
| "exec (Pop2 src1 src2) s = Some (do_Pop2 src1 src2 s)"
| "exec (li rd imm) s = Some (wr_gpr rd (of_int imm) s)"
| "exec (andi rd rs imm) s = Some (wr_gpr rd (rd_gpr s rs AND of_int imm) s)"
| "exec (VU_set rd sew lmul) s =
     Some (wr_gpr rd (of_nat (vlmax sew lmul)) (s\<lparr>vsew := sew, vlmul := lmul\<rparr>))"
| "exec (vmv_vv vd vs1) s =
     (let b = sew_bytes (vsew s); V = vrf s in
      vupd (vwrite b (vl s) (\<lambda>i. velem b V vs1 i) V vd) s)"
| "exec (vmv_vx vd rs1) s =
     (let b = sew_bytes (vsew s); V = vrf s in
      vupd (vwrite b (vl s) (\<lambda>i. unat (rd_gpr s rs1)) V vd) s)"
| "exec (vmv_sx vd rs1) s =
     (let b = sew_bytes (vsew s); V = vrf s in
      vupd (vwrite b (min 1 (vl s)) (\<lambda>i. unat (rd_gpr s rs1)) V vd) s)"
| "exec (vmv_xs rd vs2) s =
     (let b = sew_bytes (vsew s) in
      Some (wr_gpr rd (of_int (sext b (velem b (vrf s) vs2 0))) s))"
| "exec (vand_vv vd vs2 vs1) s =
     (let b = sew_bytes (vsew s); V = vrf s in
      vupd (vwrite b (vl s) (\<lambda>i. velem b V vs2 i AND velem b V vs1 i) V vd) s)"
| "exec (vmfeq_vv vd vs2 vs1) s =
     (let b = sew_bytes (vsew s); V = vrf s in
      case fp_format (vsew s) of
        None \<Rightarrow> None
      | Some (ew, mw) \<Rightarrow>
          vupd (vwrite_mask (vl s)
                  (\<lambda>i. fp_eq ew mw (velem b V vs2 i) (velem b V vs1 i)) V vd) s)"
| "exec (vfmin_vv vd vs2 vs1 mt) s =
     (let b = sew_bytes (vsew s); V = vrf s in
      case fp_format (vsew s) of
        None \<Rightarrow> None
      | Some (ew, mw) \<Rightarrow>
          vupd (vwrite b (vl s)
                  (\<lambda>i. if mt = NoMask \<or> vmask V i
                        then fp_min ew mw (velem b V vs2 i) (velem b V vs1 i)
                        else velem b V vd i) V vd) s)"
| "exec (vfmax_vv vd vs2 vs1 mt) s =
     (let b = sew_bytes (vsew s); V = vrf s in
      case fp_format (vsew s) of
        None \<Rightarrow> None
      | Some (ew, mw) \<Rightarrow>
          vupd (vwrite b (vl s)
                  (\<lambda>i. if mt = NoMask \<or> vmask V i
                        then fp_max ew mw (velem b V vs2 i) (velem b V vs1 i)
                        else velem b V vd i) V vd) s)"
| "exec (vmerge_vx vd rs1 vs2) s =
     (let b = sew_bytes (vsew s); V = vrf s in
      vupd (vwrite b (vl s)
              (\<lambda>i. if vmask V i then unat (rd_gpr s rs1) else velem b V vs2 i) V vd) s)"
| "exec (vslidedown_vi vd vs2 uimm) s =
     (let b = sew_bytes (vsew s); V = vrf s in
      vupd (vwrite b (vl s)
              (\<lambda>i. if i + uimm < vl s then velem b V vs2 (i + uimm) else 0) V vd) s)"
| "exec (vsll_vx vd vs2 rs1) s =
     (let b = sew_bytes (vsew s); V = vrf s; sh = unat (rd_gpr s rs1) mod (8 * b) in
      vupd (vwrite b (vl s) (\<lambda>i. velem b V vs2 i * 2 ^ sh) V vd) s)"
| "exec (vsrl_vx vd vs2 rs1) s =
     (let b = sew_bytes (vsew s); V = vrf s; sh = unat (rd_gpr s rs1) mod (8 * b) in
      vupd (vwrite b (vl s) (\<lambda>i. velem b V vs2 i div 2 ^ sh) V vd) s)"
| "exec (vsra_vx vd vs2 rs1) s =
     (let b = sew_bytes (vsew s); V = vrf s; sh = unat (rd_gpr s rs1) mod (8 * b) in
      vupd (vwrite b (vl s)
              (\<lambda>i. nat ((sext b (velem b V vs2 i) div 2 ^ sh) mod 256 ^ b)) V vd) s)"
| "exec (vwaddu_vv vd vs2 vs1) s =
     (let b = sew_bytes (vsew s); V = vrf s in
      if vd = vs2 \<or> vd = vs1 then None
      else vupd (vwrite (2 * b) (vl s) (\<lambda>i. velem b V vs2 i + velem b V vs1 i) V vd) s)"
| "exec (vwaddu_wx vd vs2 rs1) s =
     (let b = sew_bytes (vsew s); V = vrf s in
      vupd (vwrite (2 * b) (vl s)
              (\<lambda>i. velem (2 * b) V vs2 i + unat (rd_gpr s rs1) mod 256 ^ b) V vd) s)"
| "exec (vdivu_vx vd vs2 rs1) s =
     (let b = sew_bytes (vsew s); V = vrf s; d = unat (rd_gpr s rs1) mod 256 ^ b in
      vupd (vwrite b (vl s)
              (\<lambda>i. if d = 0 then 256 ^ b - 1 else velem b V vs2 i div d) V vd) s)"
| "exec (vnclipu_vi vd vs2 uimm) s =
     (let b = sew_bytes (vsew s); V = vrf s in
      if uimm = 0 \<and> vd \<noteq> Suc vs2
      then vupd (vwrite b (vl s) (\<lambda>i. min (256 ^ b - 1) (velem (2 * b) V vs2 i)) V vd) s
      else None)"
| "exec _ s = None"

fun run :: "Instr list \<Rightarrow> machine \<Rightarrow> machine option" where
  "run [] s = Some s"
| "run (i # is) s = (case exec i s of None \<Rightarrow> None | Some s' \<Rightarrow> run is s')"

section \<open>Vector lowering: shifts of 8-bit lanes by a register\<close>

definition emit_i8x16_shl ::
  "LiftoffRegister \<Rightarrow> LiftoffRegister \<Rightarrow> LiftoffRegister \<Rightarrow> Instr list" where
  "emit_i8x16_shl dst lhs rhs =
     [VU_set kScratchReg E8 m1,
      andi (gp rhs) (gp rhs) (8 - 1),
      vsll_vx (toV (fp dst)) (toV (fp lhs)) (gp rhs)]"

definition emit_i8x16_shr_s ::
  "LiftoffRegister \<Rightarrow> LiftoffRegister \<Rightarrow> LiftoffRegister \<Rightarrow> Instr list" where
  "emit_i8x16_shr_s dst lhs rhs =
     [VU_set kScratchReg E8 m1,
      andi (gp rhs) (gp rhs) (8 - 1),
      vsra_vx (toV (fp dst)) (toV (fp lhs)) (gp rhs)]"

definition emit_i8x16_shr_u ::
  "LiftoffRegister \<Rightarrow> LiftoffRegister \<Rightarrow> LiftoffRegister \<Rightarrow> Instr list" where
  "emit_i8x16_shr_u dst lhs rhs =
     [VU_set kScratchReg E8 m1,
      andi (gp rhs) (gp rhs) (8 - 1),
      vsrl_vx (toV (fp dst)) (toV (fp lhs)) (gp rhs)]"

section \<open>Concrete machine states\<close>

definition machine0 :: machine where
  "machine0 = \<lparr>gpr = (\<lambda>r. of_nat (11 * r + 3)), fpr = (\<lambda>r. 0),
     vrf = (\<lambda>a. of_nat (7 * a + 1)), mem = (\<lambda>a. a), vsew = E64, vlmul = m8\<rparr>"

section \<open>Execution with forward branches\<close>

text \<open>
  Modelled from the spec: branches, calls and jumps belong to the instruction set outside
  the excerpt.  \<open>Branch(L, cond, rs, rt)\<close> compares two registers (\<open>u\<close>-conditions as
  unsigned numbers) and, when the condition holds, continues after the \<open>bind\<close> of its
  label; the label must be bound further on in the sequence.  A \<open>Call\<close> of a runtime
  stub leaves the sequence for the stub (\<open>kWasmStackOverflow\<close> throws: "the call will not
  return"), \<open>GenPCRelativeJump\<close> leaves it for the given distance from the jump itself
  (the value left in the register it goes through is not tracked), \<open>stop\<close> halts.  The
  first argument of \<open>run_flow\<close> is the label being looked for after a taken branch.
\<close>

fun cond_holds :: "Condition \<Rightarrow> 64 word \<Rightarrow> 64 word \<Rightarrow> bool" where
  "cond_holds eq a b = (a = b)"
| "cond_holds ne a b = (a \<noteq> b)"
| "cond_holds lt a b = (a <s b)"
| "cond_holds le a b = (a \<le>s b)"
| "cond_holds gt a b = (b <s a)"
| "cond_holds ge a b = (b \<le>s a)"
| "cond_holds ult a b = (a < b)"
| "cond_holds ule a b = (a \<le> b)"
| "cond_holds ugt a b = (b < a)"
| "cond_holds uge a b = (b \<le> a)"

datatype Outcome =
    FellThrough machine
  | Jumped machine int
  | Called RuntimeStubId machine
  | Stopped machine
  | Stuck

fun run_flow :: "Label option \<Rightarrow> Instr list \<Rightarrow> machine \<Rightarrow> Outcome" where
  "run_flow None [] s = FellThrough s"
| "run_flow (Some l) [] s = Stuck"
| "run_flow (Some l) (i # is) s =
     (if i = bind_label l then run_flow None is s else run_flow (Some l) is s)"
| "run_flow None (Branch l c rs rt # is) s =
     (if cond_holds c (rd_gpr s rs) (rd_gpr s rt) then run_flow (Some l) is s
      else run_flow None is s)"
| "run_flow None (Call stub mode # is) s = Called stub s"
| "run_flow None (GenPCRelativeJump r imm # is) s = Jumped s imm"
| "run_flow None (stop # is) s = Stopped s"
| "run_flow None (bind_label l # is) s = run_flow None is s"
| "run_flow None (i # is) s =
     (case exec i s of None \<Rightarrow> Stuck | Some s' \<Rightarrow> run_flow None is s')"

text \<open>
  A machine with room on the stack: \<open>sp = 100000\<close>; the instance register holds 113, the
  stack limit address read through it (offset 183 less the tag) is 295, and the limit
  stored there is 295.
\<close>

definition patch_state :: machine where
  "patch_state = machine0\<lparr>gpr := (gpr machine0)(sp := 100000)\<rparr>"

section \<open>Vector lowering: lane extract and replace\<close>

text \<open>\<open>0x1 << imm_lane_idx\<close> is \<open>push_bit imm_lane_idx 1\<close>; the lane index is a \<open>uint8_t\<close>.\<close>

definition emit_i32x4_extract_lane ::
  "LiftoffRegister \<Rightarrow> LiftoffRegister \<Rightarrow> nat \<Rightarrow> Instr list" where
  "emit_i32x4_extract_lane dst lhs imm_lane_idx =
     [VU_set kScratchReg E32 m1,
      vslidedown_vi kSimd128ScratchReg (toV (fp lhs)) imm_lane_idx,
      vmv_xs (gp dst) kSimd128ScratchReg]"

definition emit_i32x4_replace_lane ::
  "LiftoffRegister \<Rightarrow> LiftoffRegister \<Rightarrow> LiftoffRegister \<Rightarrow> nat \<Rightarrow> Instr list" where
  "emit_i32x4_replace_lane dst src1 src2 imm_lane_idx =
     [VU_set kScratchReg E32 m1,
      li kScratchReg (push_bit imm_lane_idx 1),
      vmv_sx v0 kScratchReg,
      vmerge_vx (toV (fp dst)) (gp src2) (toV (fp src1))]"

section \<open>Vector lowering: rounding average\<close>

definition emit_i8x16_rounding_average_u ::
  "LiftoffRegister \<Rightarrow> LiftoffRegister \<Rightarrow> LiftoffRegister \<Rightarrow> Instr list" where
  "emit_i8x16_rounding_average_u dst lhs rhs =
     [VU_set kScratchReg E8 m1,
      vwaddu_vv kSimd128ScratchReg (toV (fp lhs)) (toV (fp rhs)),
      li kScratchReg 1,
      vwaddu_wx kSimd128ScratchReg3 kSimd128ScratchReg kScratchReg,
      li kScratchReg 2,
      VU_set kScratchReg2 E16 m2,
      vdivu_vx kSimd128ScratchReg3 kSimd128ScratchReg3 kScratchReg,
      VU_set kScratchReg2 E8 m1,
      vnclipu_vi (toV (fp dst)) kSimd128ScratchReg3 0]"

definition emit_i16x8_rounding_average_u ::
  "LiftoffRegister \<Rightarrow> LiftoffRegister \<Rightarrow> LiftoffRegister \<Rightarrow> Instr list" where
  "emit_i16x8_rounding_average_u dst lhs rhs =
     [VU_set kScratchReg2 E16 m1,
      vwaddu_vv kSimd128ScratchReg (toV (fp lhs)) (toV (fp rhs)),
      li kScratchReg 1,
      vwaddu_wx kSimd128ScratchReg3 kSimd128ScratchReg kScratchReg,
      li kScratchReg 2,
      VU_set kScratchReg2 E32 m2,
      vdivu_vx kSimd128ScratchReg3 kSimd128ScratchReg3 kScratchReg,
      VU_set kScratchReg2 E16 m1,
      vnclipu_vi (toV (fp dst)) kSimd128ScratchReg3 0]"

text \<open>A machine state whose vector register bytes all hold one value.\<close>

definition machine_bytes :: "8 word \<Rightarrow> machine" where
  "machine_bytes x = machine0\<lparr>vrf := (\<lambda>a. x)\<rparr>"

section \<open>Vector lowering: float minimum and maximum\<close>

definition emit_f32x4_min ::
  "LiftoffRegister \<Rightarrow> LiftoffRegister \<Rightarrow> LiftoffRegister \<Rightarrow> Instr list" where
  "emit_f32x4_min dst lhs rhs =
     (let kNaN = 0x7FC00000 in
      [VU_set kScratchReg E32 m1,
       vmfeq_vv v0 (toV (fp lhs)) (toV (fp lhs)),
       vmfeq_vv kSimd128ScratchReg (toV (fp rhs)) (toV (fp rhs)),
       vand_vv v0 v0 kSimd128ScratchReg,
       li kScratchReg kNaN,
       vmv_vx kSimd128ScratchReg kScratchReg,
       vfmin_vv kSimd128ScratchReg (toV (fp rhs)) (toV (fp lhs)) Mask,
       vmv_vv (toV (fp dst)) kSimd128ScratchReg])"

definition emit_f32x4_max ::
  "LiftoffRegister \<Rightarrow> LiftoffRegister \<Rightarrow> LiftoffRegister \<Rightarrow> Instr list" where
  "emit_f32x4_max dst lhs rhs =
     (let kNaN = 0x7FC00000 in
      [VU_set kScratchReg E32 m1,
       vmfeq_vv v0 (toV (fp lhs)) (toV (fp lhs)),
       vmfeq_vv kSimd128ScratchReg (toV (fp rhs)) (toV (fp rhs)),
       vand_vv v0 v0 kSimd128ScratchReg,
       li kScratchReg kNaN,
       vmv_vx kSimd128ScratchReg kScratchReg,
       vfmax_vv kSimd128ScratchReg (toV (fp rhs)) (toV (fp lhs)) Mask,
       vmv_vv (toV (fp dst)) kSimd128ScratchReg])"

section \<open>Register save and restore\<close>

text \<open>
  A \<open>LiftoffRegList\<close> is a set of registers, kept as a bit set indexed by register code
  with the general registers below the floating-point ones: here the set of general and the
  set of floating-point register codes.  \<open>GetFirstRegSet\<close> is the least and
  \<open>GetLastRegSet\<close> the greatest code of a set, \<open>GetNumRegsSet\<close> its cardinality.
  The cache register lists \<open>kGpCacheRegList\<close> and \<open>kFpCacheRegList\<close> are constants of
  the target outside the excerpt, a set of general and a set of floating-point registers;
  they are parameters of the two methods.
\<close>

record LiftoffRegList =
  gp_set :: "Register fset"
  fp_set :: "DoubleRegister fset"

text \<open>
  The four \<open>while (!regs.is_empty())\<close> loops; the two of \<open>PopRegisters\<close> also yield
  the offset they end with.
\<close>

function push_gp_loop :: "Register fset \<Rightarrow> int \<Rightarrow> Instr list" where
  "push_gp_loop gp_regs offset =
     (if gp_regs = {||} then []
      else StoreWord (fMin gp_regs) (MemOperand sp (offset - kSystemPointerSize))
           # push_gp_loop (gp_regs |-| {|fMin gp_regs|}) (offset - kSystemPointerSize))"
  by pat_completeness auto
termination
  by (relation "measure (\<lambda>(g, off). fcard g)") (simp_all add: fcard_fminus1_less del: fcard_fminus_finsert)

function push_fp_loop :: "DoubleRegister fset \<Rightarrow> int \<Rightarrow> Instr list" where
  "push_fp_loop fp_regs offset =
     (if fp_regs = {||} then []
      else StoreDouble (fMin fp_regs) (MemOperand sp offset)
           # push_fp_loop (fp_regs |-| {|fMin fp_regs|}) (offset + sizeof_double))"
  by pat_completeness auto
termination
  by (relation "measure (\<lambda>(g, off). fcard g)") (simp_all add: fcard_fminus1_less del: fcard_fminus_finsert)

function pop_fp_loop :: "DoubleRegister fset \<Rightarrow> int \<Rightarrow> Instr list \<times> int" where
  "pop_fp_loop fp_regs fp_offset =
     (if fp_regs = {||} then ([], fp_offset)
      else case pop_fp_loop (fp_regs |-| {|fMin fp_regs|}) (fp_offset + sizeof_double) of
             (code, off) \<Rightarrow> (LoadDouble (fMin fp_regs) (MemOperand sp fp_offset) # code, off))"
  by pat_completeness auto
termination
  by (relation "measure (\<lambda>(g, off). fcard g)") (simp_all add: fcard_fminus1_less del: fcard_fminus_finsert)

function pop_gp_loop :: "Register fset \<Rightarrow> int \<Rightarrow> Instr list \<times> int" where
  "pop_gp_loop gp_regs gp_offset =
     (if gp_regs = {||} then ([], gp_offset)
      else case pop_gp_loop (gp_regs |-| {|fMax gp_regs|}) (gp_offset + kSystemPointerSize) of
             (code, off) \<Rightarrow> (LoadWord (fMax gp_regs) (MemOperand sp gp_offset) # code, off))"
  by pat_completeness auto
termination
  by (relation "measure (\<lambda>(g, off). fcard g)") (simp_all add: fcard_fminus1_less del: fcard_fminus_finsert)

declare push_gp_loop.simps [simp del] push_fp_loop.simps [simp del]
  pop_fp_loop.simps [simp del] pop_gp_loop.simps [simp del]

definition PushRegisters ::
  "Register fset \<Rightarrow> DoubleRegister fset \<Rightarrow> LiftoffRegList \<Rightarrow> Instr list" where
  "PushRegisters kGpCacheRegList kFpCacheRegList regs =
     (let gp_regs = gp_set regs |\<inter>| kGpCacheRegList;
          num_gp_regs = int (fcard gp_regs)
      in if num_gp_regs \<noteq> 0
         then AddWord sp sp (- (num_gp_regs * kSystemPointerSize))
              # push_gp_loop gp_regs (num_gp_regs * kSystemPointerSize)
         else [])
     @ (let fp_regs = fp_set regs |\<inter>| kFpCacheRegList;
            num_fp_regs = int (fcard fp_regs)
        in if num_fp_regs \<noteq> 0
           then AddWord sp sp (- (num_fp_regs * kStackSlotSize))
                # push_fp_loop fp_regs 0
           else [])"

definition PopRegisters ::
  "Register fset \<Rightarrow> DoubleRegister fset \<Rightarrow> LiftoffRegList \<Rightarrow> Instr list" where
  "PopRegisters kGpCacheRegList kFpCacheRegList regs =
     (let fp_regs = fp_set regs |\<inter>| kFpCacheRegList;
          (fp_code, fp_offset) = pop_fp_loop fp_regs 0;
          gp_regs = gp_set regs |\<inter>| kGpCacheRegList;
          (gp_code, gp_offset) = pop_gp_loop gp_regs 0
      in fp_code
         @ (if fp_offset \<noteq> 0 then [AddWord sp sp fp_offset] else [])
         @ gp_code
         @ [AddWord sp sp gp_offset])"

text \<open>Concrete cache register lists and register sets.\<close>

definition gp_cache_example :: "Register fset" where
  "gp_cache_example = {|5, 6, 7, 10, 11, 12, 13, 14, 15, 16, 17, 23|}"

definition fp_cache_example :: "DoubleRegister fset" where
  "fp_cache_example = {|1, 2, 3, 4, 5, 6, 7, 10, 11, 12|}"

definition regs_mixed :: LiftoffRegList where
  "regs_mixed = \<lparr>gp_set = {|10, 5|}, fp_set = {|2|}\<rparr>"

definition regs_gp_only :: LiftoffRegList where
  "regs_gp_only = \<lparr>gp_set = {|10, 5, 11|}, fp_set = {||}\<rparr>"

section \<open>Tail calls: shifting the frame\<close>







section \<open>Results: register constants\<close>

lemmas reg_defs =
  zero_reg_def ra_def sp_def fp_reg_def kWasmInstanceRegister_def kScratchReg_def
  kScratchReg2_def t6_def
lemmas vreg_defs =
  v0_def kSimd128ScratchReg3_def kSimd128ScratchReg2_def kSimd128ScratchReg_def
  kSimd128RegZero_def toV_def

section \<open>Results: elements of the vector register file\<close>

lemma le_nat_append: "le_nat (xs @ ys) = le_nat xs + 256 ^ length xs * le_nat ys"
  by (induction xs) (simp_all add: algebra_simps)

lemma le_nat_lt: "le_nat bs < 256 ^ length bs"
proof (induction bs)
  case Nil
  then show ?case by simp
next
  case (Cons x bs)
  have "unat x < 256" using unsigned_less [of x, where ?'a = nat] by simp
  with Cons show ?case by simp
qed

lemma unat_of_nat_byte: "unat (of_nat x :: 8 word) = x mod 256"
  by (simp add: unat_of_nat)

lemma le_nat_bytes:
  "le_nat (map (\<lambda>k. of_nat (x div 256 ^ k) :: 8 word) [0..<b]) = x mod 256 ^ b"
proof (induction b)
  case 0
  then show ?case by simp
next
  case (Suc b)
  have "x mod (256 ^ b * 256) = 256 ^ b * (x div 256 ^ b mod 256) + x mod 256 ^ b"
    by (rule mod_mult2_eq)
  with Suc show ?case
    by (simp add: le_nat_append unat_of_nat_byte mult.commute)
qed

lemma velem_lt: "velem b V r i < 256 ^ b"
  using le_nat_lt [of "map (\<lambda>k. V (16 * r + i * b + k)) [0..<b]"]
  by (simp add: velem_def)

lemma velem_vwrite_same:
  assumes "i < n"
  shows "velem b (vwrite b n f V r) r i = f i mod 256 ^ b"
proof -
  have "map (\<lambda>k. vwrite b n f V r (16 * r + i * b + k)) [0..<b]
        = map (\<lambda>k. of_nat (f i div 256 ^ k) :: 8 word) [0..<b]"
  proof (rule map_cong [OF refl])
    fix k assume "k \<in> set [0..<b]"
    then have k: "k < b" by simp
    have "i * b + k < n * b"
    proof -
      have "i * b + k < (i + 1) * b" using k by simp
      also have "\<dots> \<le> n * b" using assms by (intro mult_le_mono1) simp
      finally show ?thesis .
    qed
    moreover have "(i * b + k) div b = i" "(i * b + k) mod b = k" using k by simp_all
    ultimately show "vwrite b n f V r (16 * r + i * b + k) = of_nat (f i div 256 ^ k)"
      by (simp add: vwrite_def add.assoc)
  qed
  then show ?thesis unfolding velem_def by (simp only: le_nat_bytes)
qed

lemma velem_vwrite_other:
  assumes "16 * r + n * b \<le> 16 * r' + i * b' \<or> 16 * r' + (i + 1) * b' \<le> 16 * r"
  shows "velem b' (vwrite b n f V r) r' i = velem b' V r' i"
proof -
  have "map (\<lambda>k. vwrite b n f V r (16 * r' + i * b' + k)) [0..<b']
        = map (\<lambda>k. V (16 * r' + i * b' + k)) [0..<b']"
  proof (rule map_cong [OF refl])
    fix k assume "k \<in> set [0..<b']"
    then have k: "k < b'" by simp
    then have "i * b' + k < (i + 1) * b'" by simp
    with assms have "\<not> (16 * r \<le> 16 * r' + i * b' + k \<and> 16 * r' + i * b' + k < 16 * r + n * b)"
      by auto
    then show "vwrite b n f V r (16 * r' + i * b' + k) = V (16 * r' + i * b' + k)"
      unfolding vwrite_def by (simp only: if_False)
  qed
  then show ?thesis unfolding velem_def by (simp only:)
qed

lemma bit_le_nat:
  "bit (le_nat bs) i \<longleftrightarrow> i div 8 < length bs \<and> bit (bs ! (i div 8)) (i mod 8)"
proof (induction bs arbitrary: i)
  case Nil
  then show ?case by simp
next
  case (Cons x bs)
  have lt: "unat x < 2 ^ 8" using unsigned_less [of x, where ?'a = nat] by simp
  have e: "le_nat (x # bs) = unat x + push_bit 8 (le_nat bs)"
    by (simp add: push_bit_eq_mult mult.commute)
  have tb: "take_bit 8 (unat x) = unat x" using lt by (simp add: take_bit_nat_eq_self)
  have d: "unat x + push_bit 8 (le_nat bs) = unat x OR push_bit 8 (le_nat bs)"
  proof -
    have "take_bit 8 (unat x) + push_bit 8 (le_nat bs) = take_bit 8 (unat x) OR push_bit 8 (le_nat bs)"
      by (rule disjunctive_add_eq_or, rule bit_eqI) (simp add: bit_simps)
    then show ?thesis by (simp add: tb)
  qed
  have eq: "le_nat (x # bs) = unat x OR push_bit 8 (le_nat bs)"
    using e d by (simp only:)
  show ?case
  proof (cases "i < 8")
    case True
    then show ?thesis
      unfolding eq by (simp add: bit_simps bit_unsigned_iff)
  next
    case False
    then have "i div 8 = Suc ((i - 8) div 8)" "i mod 8 = (i - 8) mod 8"
      by (simp_all add: le_div_geq le_mod_geq)
    moreover have "\<not> bit (unat x) i"
      using False lt by (metis tb bit_take_bit_iff)
    ultimately show ?thesis using False Cons.IH [of "i - 8"]
      unfolding eq by (simp add: bit_simps)
  qed
qed

section \<open>Results: condition mapping\<close>

text \<open>
  C6.  The floating-point condition mapper returns a condition code for exactly the six
  kinds equal, not-equal and the four unsigned orderings, and reaches the fatal
  unreachable branch for exactly the four signed orderings; so for a supported kind the
  unreachable branch is not taken.
\<close>

theorem C6_fpu_condition_supported_kinds:
  "ConditionToConditionCmpFPU kEqual = Inr EQ
   \<and> ConditionToConditionCmpFPU kUnequal = Inr NE
   \<and> ConditionToConditionCmpFPU kUnsignedLessThan = Inr LT
   \<and> ConditionToConditionCmpFPU kUnsignedLessEqual = Inr LE
   \<and> ConditionToConditionCmpFPU kUnsignedGreaterThan = Inr GT
   \<and> ConditionToConditionCmpFPU kUnsignedGreaterEqual = Inr GE
   \<and> ((\<exists>fc. ConditionToConditionCmpFPU c = Inr fc) =
        (c \<in> {kEqual, kUnequal, kUnsignedLessThan, kUnsignedLessEqual,
              kUnsignedGreaterThan, kUnsignedGreaterEqual}))
   \<and> ((ConditionToConditionCmpFPU c = Inl Unreachable) =
        (c \<in> {kSignedLessThan, kSignedLessEqual, kSignedGreaterThan, kSignedGreaterEqual}))"
  by (cases c) simp_all

section \<open>Results: patching the prologue\<close>

lemma int_product_in_range:
  "0 \<le> sint (k :: 32 word) \<Longrightarrow> sint k < 2097152 \<Longrightarrow> sint (k * 1024) = sint k * 1024"
proof -
  assume a: "0 \<le> sint k" "sint k < 2097152"
  have "sint (k * 1024) = signed_take_bit 31 (sint k * sint (1024 :: 32 word))"
    by (simp add: sint_word_ariths)
  also have "\<dots> = sint k * 1024"
    using a by (simp add: signed_take_bit_int_eq_self_iff)
  finally show ?thesis .
qed

lemma frame_nonneg:
  assumes "\<not> (fs :: 32 word) <s 4096"
  shows "sint fs = uint fs" "4096 \<le> sint fs"
proof -
  show b: "4096 \<le> sint fs" using assms by (simp add: word_sless_alt)
  have c: "sint fs < 2 ^ 32" using sint_lt [of fs] by simp
  have "uint fs = take_bit 32 (sint fs)" by (simp add: uint_sint)
  also have "\<dots> = sint fs" using b c by (intro take_bit_int_eq_self) simp_all
  finally show "sint fs = uint fs" by simp
qed

lemma sint_frame:
  "\<not> (fs :: 32 word) <s 4096 \<Longrightarrow> (of_int (sint fs) :: 64 word) = ucast fs"
  by (simp add: frame_nonneg(1))

lemma sint_neg_frame:
  assumes "\<not> (fs :: 32 word) <s 4096"
  shows "(of_int (sint (- fs)) :: 64 word) = - ucast fs"
proof -
  note a = frame_nonneg(2) [OF assms] frame_nonneg(1) [OF assms]
  have b: "sint fs < 2 ^ 31" using sint_lt [of fs] by simp
  have "sint (- fs) = signed_take_bit 31 (- sint fs)" by (simp add: sint_word_ariths)
  also have "\<dots> = - sint fs" using a b by (simp add: signed_take_bit_int_eq_self_iff)
  finally have "sint (- fs) = - uint fs" by (simp only: a(2))
  then show ?thesis by simp
qed

text \<open>
  C1, as stated, fails for a frame at least as large as the whole stack: with a frame of
  2 MiB and a stack of 984 KB the out-of-line code holds no stack limit check; whatever the
  stack pointer and the stack limit are, it calls the stack overflow stub.  The same
  happens for a frame of 4 KiB when \<open>stack_size\<close> is 2097152: the product
  \<open>stack_size * 1024\<close> wraps around to the least \<open>int\<close>, which no frame size is below.
\<close>

theorem C1_huge_frame_has_no_limit_check:
  "\<forall>cs s.
     \<not> total_frame_size (env_huge cs) - 16 <s 4096
   \<and> patched (PatchPrepareStackFrame (env_huge cs) 8) = [GenPCRelativeJump kScratchReg 392]
   \<and> ool (PatchPrepareStackFrame (env_huge cs) 8) =
       [Call kWasmStackOverflow WASM_STUB_CALL, stop, bind_label ''continuation'',
        AddWord sp sp (- 2097152),
        GenPCRelativeJump kScratchReg
          (sint (16 - (400 + cs [Call kWasmStackOverflow WASM_STUB_CALL, stop,
                                 bind_label ''continuation'', AddWord sp sp (- 2097152)])))]
   \<and> run_flow None (ool (PatchPrepareStackFrame (env_huge cs) 8)) s
       = Called kWasmStackOverflow s
   \<and> \<not> total_frame_size (env_wrap cs) - 16 <s 4096
   \<and> stack_size (env_wrap cs) * 1024 \<le>s total_frame_size (env_wrap cs) - 16
   \<and> run_flow None (ool (PatchPrepareStackFrame (env_wrap cs) 8)) s
       = Called kWasmStackOverflow s"
  by (simp add: PatchPrepareStackFrame_def env_huge_def env_wrap_def KB_def
        kSystemPointerSize_def kInstrSize_def Let_def word_sless_alt word_sle_eq)

text \<open>
  C1, amended.  With the frame size being the total frame size minus two pointer-sized
  slots: below 4 KiB the placeholder is patched with the single direct decrement of the
  stack pointer by the frame size, and nothing else is emitted; from exactly 4 KiB on it
  is patched with a jump to the out-of-line code.  When the frame size is below
  \<open>stack_size * 1024\<close> (a product of \<open>int\<close>s, equal to the configured stack size in bytes
  when \<open>stack_size\<close> is between 0 and 2097151), that code reads the stack limit through
  the instance and compares: if the stack pointer is at or above the limit plus the frame
  size (as unsigned numbers) it lowers the stack pointer by the frame size and jumps back
  to two instructions after \<open>offset\<close>; otherwise it calls the stack overflow stub with
  the stack pointer unchanged.  When the frame size is not below \<open>stack_size * 1024\<close> the
  code calls the stack overflow stub at once, in every machine state.
\<close>

theorem C1_patch_prepare_stack_frame_threshold:
  "(let fs = total_frame_size env - 16;
        R = PatchPrepareStackFrame env offset;
        limit = mem s (mem s (rd_gpr s kWasmInstanceRegister
                              + of_int (kRealStackLimitAddressOffset env - kHeapObjectTag)))
    in (fs <s 4096 \<longrightarrow>
          R = \<lparr>patched = [AddWord sp sp (sint (- fs))], ool = [], safepoints = []\<rparr>)
     \<and> (\<not> fs <s 4096 \<longrightarrow>
          patched R = [GenPCRelativeJump kScratchReg (sint (pc_offset env - offset))]
        \<and> (fs <s stack_size env * 1024 \<and> limit + ucast fs \<le> rd_gpr s sp \<longrightarrow>
             (\<exists>s'. run_flow None (ool R) s =
                     Jumped s' (sint (offset + 8
                                      - (pc_offset env + code_size env (butlast (ool R)))))
                  \<and> rd_gpr s' sp = rd_gpr s sp - ucast fs \<and> mem s' = mem s))
        \<and> (fs <s stack_size env * 1024 \<and> rd_gpr s sp < limit + ucast fs \<longrightarrow>
             (\<exists>s'. run_flow None (ool R) s = Called kWasmStackOverflow s'
                  \<and> rd_gpr s' sp = rd_gpr s sp \<and> mem s' = mem s))
        \<and> (\<not> fs <s stack_size env * 1024 \<longrightarrow>
             run_flow None (ool R) s = Called kWasmStackOverflow s))
     \<and> (0 \<le> sint (stack_size env) \<and> sint (stack_size env) < 2097152 \<longrightarrow>
          (fs <s stack_size env * 1024) = (sint fs < sint (stack_size env) * 1024)))"
proof -
  define fs where "fs = total_frame_size env - 16"
  define R where "R = PatchPrepareStackFrame env offset"
  define limit where "limit = mem s (mem s (rd_gpr s kWasmInstanceRegister
                              + of_int (kRealStackLimitAddressOffset env - kHeapObjectTag)))"
  have small: "R = \<lparr>patched = [AddWord sp sp (sint (- fs))], ool = [], safepoints = []\<rparr>"
    if "fs <s 4096"
    using that
    by (simp add: R_def fs_def PatchPrepareStackFrame_def Let_def KB_def kSystemPointerSize_def)
  have jump: "patched R = [GenPCRelativeJump kScratchReg (sint (pc_offset env - offset))]"
    if "\<not> fs <s 4096"
    using that
    by (simp add: R_def fs_def PatchPrepareStackFrame_def Let_def KB_def kSystemPointerSize_def)
  have nocheck: "run_flow None (ool R) s = Called kWasmStackOverflow s"
    if "\<not> fs <s 4096" "\<not> fs <s stack_size env * 1024"
    using that
    by (simp add: R_def fs_def PatchPrepareStackFrame_def Let_def KB_def kSystemPointerSize_def)
  have pass: "\<exists>s'. run_flow None (ool R) s =
                     Jumped s' (sint (offset + 8
                                      - (pc_offset env + code_size env (butlast (ool R)))))
                  \<and> rd_gpr s' sp = rd_gpr s sp - ucast fs \<and> mem s' = mem s"
    if "\<not> fs <s 4096" "fs <s stack_size env * 1024" "limit + ucast fs \<le> rd_gpr s sp"
    using that sint_frame [OF that(1)] sint_neg_frame [OF that(1)]
    by (simp add: R_def fs_def limit_def PatchPrepareStackFrame_def Let_def KB_def
          kSystemPointerSize_def kInstrSize_def FieldMemOperand_def do_LoadWord_def
          do_AddWord_def rd_gpr_def wr_gpr_def reg_defs butlast_append)
  have fail: "\<exists>s'. run_flow None (ool R) s = Called kWasmStackOverflow s'
                  \<and> rd_gpr s' sp = rd_gpr s sp \<and> mem s' = mem s"
    if "\<not> fs <s 4096" "fs <s stack_size env * 1024" "rd_gpr s sp < limit + ucast fs"
    using that sint_frame [OF that(1)] sint_neg_frame [OF that(1)]
    by (simp add: R_def fs_def limit_def PatchPrepareStackFrame_def Let_def KB_def
          kSystemPointerSize_def kInstrSize_def FieldMemOperand_def do_LoadWord_def
          do_AddWord_def rd_gpr_def wr_gpr_def reg_defs)
  have range: "(fs <s stack_size env * 1024) = (sint fs < sint (stack_size env) * 1024)"
    if "0 \<le> sint (stack_size env)" "sint (stack_size env) < 2097152"
    by (simp add: word_sless_alt int_product_in_range [OF that])
  show ?thesis
    unfolding Let_def fs_def [symmetric] R_def [symmetric] limit_def [symmetric]
    using small jump nocheck pass fail range by blast
qed

theorem C1_patch_prepare_stack_frame_threshold_witness:
  "\<forall>cs.
     PatchPrepareStackFrame (env_small cs) 8 =
       \<lparr>patched = [AddWord sp sp (- 4095)], ool = [], safepoints = []\<rparr>
   \<and> patched (PatchPrepareStackFrame (env_4k cs) 8) = [GenPCRelativeJump kScratchReg 392]
   \<and> (\<exists>s'. run_flow None (ool (PatchPrepareStackFrame (env_4k cs) 8)) patch_state =
              Jumped s' (sint (8 + 8 - (400 + cs (butlast (ool (PatchPrepareStackFrame (env_4k cs) 8))))))
            \<and> rd_gpr s' sp = 95904)
   \<and> (\<exists>s'. run_flow None (ool (PatchPrepareStackFrame (env_4k cs) 8)) machine0 =
              Called kWasmStackOverflow s'
            \<and> rd_gpr s' sp = 25)
   \<and> run_flow None (ool (PatchPrepareStackFrame (env_huge cs) 8)) patch_state =
        Called kWasmStackOverflow patch_state
   \<and> (total_frame_size (env_4k cs) - 16 <s stack_size (env_4k cs) * 1024)"
proof
  fix cs
  have v: "total_frame_size (env_small cs) - 16 <s 4096"
    "\<not> total_frame_size (env_4k cs) - 16 <s 4096"
    "total_frame_size (env_4k cs) - 16 <s stack_size (env_4k cs) * 1024"
    "\<not> total_frame_size (env_huge cs) - 16 <s 4096"
    "\<not> total_frame_size (env_huge cs) - 16 <s stack_size (env_huge cs) * 1024"
    "0 \<le> sint (stack_size (env_4k cs)) \<and> sint (stack_size (env_4k cs)) < 2097152"
    by (simp_all add: env_small_def env_4k_def env_huge_def word_sless_alt)
  have st: "rd_gpr patch_state sp = 100000" "rd_gpr machine0 sp = 25"
    "mem patch_state (mem patch_state (rd_gpr patch_state kWasmInstanceRegister
        + of_int (kRealStackLimitAddressOffset (env_4k cs) - kHeapObjectTag))) = 295"
    "mem machine0 (mem machine0 (rd_gpr machine0 kWasmInstanceRegister
        + of_int (kRealStackLimitAddressOffset (env_4k cs) - kHeapObjectTag))) = 295"
    by (simp_all add: patch_state_def machine0_def rd_gpr_def reg_defs env_4k_def
          kHeapObjectTag_def)
  have f: "(ucast (total_frame_size (env_4k cs) - 16) :: 64 word) = 4096"
    "pc_offset (env_4k cs) = 400" "pc_offset (env_small cs) = 400"
    "code_size (env_4k cs) = cs"
    "sint (- (total_frame_size (env_small cs) - 16)) = - 4095"
    by (simp_all add: env_4k_def env_small_def)
  have a: "PatchPrepareStackFrame (env_small cs) 8 =
       \<lparr>patched = [AddWord sp sp (- 4095)], ool = [], safepoints = []\<rparr>"
    using C1_patch_prepare_stack_frame_threshold [of "env_small cs" 8 machine0] v(1)
    by (simp add: Let_def; simp add: env_small_def)
  have b: "patched (PatchPrepareStackFrame (env_4k cs) 8) = [GenPCRelativeJump kScratchReg 392]"
    using C1_patch_prepare_stack_frame_threshold [of "env_4k cs" 8 machine0] v(2)
    by (simp add: Let_def; simp add: env_4k_def)
  have h1: "mem patch_state (mem patch_state (rd_gpr patch_state kWasmInstanceRegister
        + of_int (kRealStackLimitAddressOffset (env_4k cs) - kHeapObjectTag)))
      + ucast (total_frame_size (env_4k cs) - 16) \<le> rd_gpr patch_state sp"
    by (simp add: patch_state_def machine0_def rd_gpr_def reg_defs env_4k_def kHeapObjectTag_def)
  have h2: "rd_gpr machine0 sp < mem machine0 (mem machine0 (rd_gpr machine0 kWasmInstanceRegister
        + of_int (kRealStackLimitAddressOffset (env_4k cs) - kHeapObjectTag)))
      + ucast (total_frame_size (env_4k cs) - 16)"
    by (simp add: machine0_def rd_gpr_def reg_defs env_4k_def kHeapObjectTag_def)
  have c: "\<exists>s'. run_flow None (ool (PatchPrepareStackFrame (env_4k cs) 8)) patch_state =
              Jumped s' (sint (8 + 8 - (400 + cs (butlast (ool (PatchPrepareStackFrame (env_4k cs) 8))))))
            \<and> rd_gpr s' sp = 95904"
    using C1_patch_prepare_stack_frame_threshold [of "env_4k cs" 8 patch_state] v(2,3) h1
    by (simp add: Let_def; auto simp add: st f)
  have d: "\<exists>s'. run_flow None (ool (PatchPrepareStackFrame (env_4k cs) 8)) machine0 =
              Called kWasmStackOverflow s' \<and> rd_gpr s' sp = 25"
    using C1_patch_prepare_stack_frame_threshold [of "env_4k cs" 8 machine0] v(2,3) h2
    by (simp add: Let_def; auto simp add: st f)
  have e: "run_flow None (ool (PatchPrepareStackFrame (env_huge cs) 8)) patch_state =
        Called kWasmStackOverflow patch_state"
    using C1_patch_prepare_stack_frame_threshold [of "env_huge cs" 8 patch_state] v(4,5) by (simp add: Let_def)
  have g: "total_frame_size (env_4k cs) - 16 <s stack_size (env_4k cs) * 1024"
    using C1_patch_prepare_stack_frame_threshold [of "env_4k cs" 8 machine0] v(6)
    by (simp add: Let_def) (simp add: env_4k_def)
  from a b c d e g
  show "PatchPrepareStackFrame (env_small cs) 8 =
       \<lparr>patched = [AddWord sp sp (- 4095)], ool = [], safepoints = []\<rparr>
   \<and> patched (PatchPrepareStackFrame (env_4k cs) 8) = [GenPCRelativeJump kScratchReg 392]
   \<and> (\<exists>s'. run_flow None (ool (PatchPrepareStackFrame (env_4k cs) 8)) patch_state =
              Jumped s' (sint (8 + 8 - (400 + cs (butlast (ool (PatchPrepareStackFrame (env_4k cs) 8))))))
            \<and> rd_gpr s' sp = 95904)
   \<and> (\<exists>s'. run_flow None (ool (PatchPrepareStackFrame (env_4k cs) 8)) machine0 =
              Called kWasmStackOverflow s'
            \<and> rd_gpr s' sp = 25)
   \<and> run_flow None (ool (PatchPrepareStackFrame (env_huge cs) 8)) patch_state =
        Called kWasmStackOverflow patch_state
   \<and> (total_frame_size (env_4k cs) - 16 <s stack_size (env_4k cs) * 1024)"
    by (simp only: simp_thms)
qed

section \<open>Results: unsupported operations\<close>

lemma bailout_buffer: "buffer (bailout reason detail a) = buffer a"
  by (simp add: bailout_def AbortCompilation_def AbortedCodeGeneration_def)

lemma bailout_did_bailout: "reason \<noteq> kSuccess \<Longrightarrow> did_bailout (bailout reason detail a)"
  by (simp add: bailout_def did_bailout_def)

text \<open>
  C9.  Each of the six relaxed-SIMD dot-product and fused-multiply lowerings is the
  bailout call alone: whatever the assembler state, the instruction buffer is left as it
  was (nothing is emitted, not even in part) and the compilation is marked as abandoned.
\<close>

theorem C9_relaxed_simd_lowerings_bail_out:
  "buffer (emit_i16x8_dot_i8x16_i7x16_s dst lhs rhs a) = buffer a
   \<and> did_bailout (emit_i16x8_dot_i8x16_i7x16_s dst lhs rhs a)
   \<and> buffer (emit_i32x4_dot_i8x16_i7x16_add_s dst lhs rhs acc a) = buffer a
   \<and> did_bailout (emit_i32x4_dot_i8x16_i7x16_add_s dst lhs rhs acc a)
   \<and> buffer (emit_f32x4_qfma dst src1 src2 src3 a) = buffer a
   \<and> did_bailout (emit_f32x4_qfma dst src1 src2 src3 a)
   \<and> buffer (emit_f32x4_qfms dst src1 src2 src3 a) = buffer a
   \<and> did_bailout (emit_f32x4_qfms dst src1 src2 src3 a)
   \<and> buffer (emit_f64x2_qfma dst src1 src2 src3 a) = buffer a
   \<and> did_bailout (emit_f64x2_qfma dst src1 src2 src3 a)
   \<and> buffer (emit_f64x2_qfms dst src1 src2 src3 a) = buffer a
   \<and> did_bailout (emit_f64x2_qfms dst src1 src2 src3 a)"
  by (simp add: emit_i16x8_dot_i8x16_i7x16_s_def emit_i32x4_dot_i8x16_i7x16_add_s_def
        emit_f32x4_qfma_def emit_f32x4_qfms_def emit_f64x2_qfma_def emit_f64x2_qfms_def
        bailout_buffer bailout_did_bailout)

section \<open>Results: the vector configuration write\<close>

text \<open>
  C7.  The code does not do what the claim says: \<open>emit_i32x4_shli\<close> and
  \<open>emit_s128_set_if_nan\<close> emit a vector instruction with no configuration write before
  it, for all their arguments, while \<open>emit_i8x16_splat\<close> and the sibling shifts
  \<open>emit_i32x4_shl\<close>, \<open>emit_i32x4_shri_s\<close>, \<open>emit_i32x4_shri_u\<close> and
  \<open>emit_i64x2_shli\<close> write the configuration first.
\<close>

theorem C7_shli_and_set_if_nan_skip_vector_config:
  "emit_i32x4_shli (FpReg 1) (FpReg 2) 3 = [vsll_vi 1 2 3]
   \<and> \<not> configures_before_first_vector (emit_i32x4_shli dst lhs rhs)
   \<and> \<not> configures_before_first_vector (emit_s128_set_if_nan dstr src tmp_gp tmp_s128 lane_kind)
   \<and> configures_before_first_vector (emit_i8x16_splat dst src)
   \<and> configures_before_first_vector (emit_i32x4_shl dst lhs rhsr)
   \<and> configures_before_first_vector (emit_i32x4_shri_s dst lhs rhs)
   \<and> configures_before_first_vector (emit_i32x4_shri_u dst lhs rhs)
   \<and> configures_before_first_vector (emit_i64x2_shli dst lhs rhs)"
  by (simp add: emit_i32x4_shli_def emit_s128_set_if_nan_def emit_i8x16_splat_def
        emit_i32x4_shl_def emit_i32x4_shri_s_def emit_i32x4_shri_u_def emit_i64x2_shli_def
        is_uint5_def c_rem_def toV_def Let_def)

section \<open>Results: the machine state\<close>

lemma unat_and_7: "unat (x AND (7 :: 64 word)) = unat x mod 8"
proof -
  have "x AND 7 = take_bit 3 x"
    by (simp add: take_bit_eq_mask mask_eq_exp_minus_1)
  then show ?thesis by (simp add: take_bit_eq_mod unat_mod)
qed

lemma rd_gpr_zero [simp]: "rd_gpr s zero_reg = 0"
  by (simp add: rd_gpr_def)

lemma rd_gpr_wr_gpr: "rd_gpr (wr_gpr r v s) r' = (if r' = zero_reg then 0 else if r' = r then v else rd_gpr s r')"
  by (simp add: rd_gpr_def wr_gpr_def)

lemma vrf_wr_gpr [simp]: "vrf (wr_gpr r v s) = vrf s"
  and vsew_wr_gpr [simp]: "vsew (wr_gpr r v s) = vsew s"
  and vlmul_wr_gpr [simp]: "vlmul (wr_gpr r v s) = vlmul s"
  and mem_wr_gpr [simp]: "mem (wr_gpr r v s) = mem s"
  and fpr_wr_gpr [simp]: "fpr (wr_gpr r v s) = fpr s"
  by (simp_all add: wr_gpr_def)

lemma rd_gpr_vrf_update [simp]: "rd_gpr (s\<lparr>vrf := V\<rparr>) r = rd_gpr s r"
  by (simp add: rd_gpr_def)

lemma rd_gpr_vcfg_update [simp]: "rd_gpr (s\<lparr>vsew := a, vlmul := b\<rparr>) r = rd_gpr s r"
  by (simp add: rd_gpr_def)

section \<open>Results: shifts of 8-bit lanes\<close>

text \<open>
  C10.  Each of the register-operand shifts of 8-bit lanes emits, after the configuration
  write, \<open>andi\<close> of the shift-count register with 7 into that same register, and then
  the vector shift by that register: whatever the count, the caller's register holds the
  count masked to its low 3 bits afterwards, and every lane is the lane of \<open>lhs\<close>
  shifted by the count modulo 8 (left; right arithmetically; right logically).  The
  count register is any general register but the scratch register the configuration
  write clobbers.
\<close>

theorem C10_i8x16_shift_count_masked:
  assumes "gp rhs \<noteq> kScratchReg"
  shows "(\<exists>s'. run (emit_i8x16_shl dst lhs rhs) s = Some s'
           \<and> rd_gpr s' (gp rhs) = rd_gpr s (gp rhs) AND 7
           \<and> (\<forall>i<16. velem 1 (vrf s') (toV (fp dst)) i =
                 (velem 1 (vrf s) (toV (fp lhs)) i * 2 ^ (unat (rd_gpr s (gp rhs)) mod 8)) mod 256))
       \<and> (\<exists>s'. run (emit_i8x16_shr_s dst lhs rhs) s = Some s'
           \<and> rd_gpr s' (gp rhs) = rd_gpr s (gp rhs) AND 7
           \<and> (\<forall>i<16. velem 1 (vrf s') (toV (fp dst)) i =
                 nat ((sext 1 (velem 1 (vrf s) (toV (fp lhs)) i)
                        div 2 ^ (unat (rd_gpr s (gp rhs)) mod 8)) mod 256)))
       \<and> (\<exists>s'. run (emit_i8x16_shr_u dst lhs rhs) s = Some s'
           \<and> rd_gpr s' (gp rhs) = rd_gpr s (gp rhs) AND 7
           \<and> (\<forall>i<16. velem 1 (vrf s') (toV (fp dst)) i =
                 velem 1 (vrf s) (toV (fp lhs)) i div 2 ^ (unat (rd_gpr s (gp rhs)) mod 8)))
       \<and> emit_i8x16_shl dst lhs rhs ! 1 = andi (gp rhs) (gp rhs) 7
       \<and> emit_i8x16_shr_s dst lhs rhs ! 1 = andi (gp rhs) (gp rhs) 7
       \<and> emit_i8x16_shr_u dst lhs rhs ! 1 = andi (gp rhs) (gp rhs) 7"
proof -
  have m1: "\<And>V r i. velem (Suc 0) V r i mod 256 = velem (Suc 0) V r i"
    using velem_lt [of "Suc 0"] by simp
  have lt: "\<And>V r i c. velem (Suc 0) V r i div 2 ^ c mod 256 = velem (Suc 0) V r i div 2 ^ c"
  proof -
    fix V r i c
    have "velem (Suc 0) V r i div 2 ^ c \<le> velem (Suc 0) V r i" by (rule div_le_dividend)
    also have "\<dots> < 256" using velem_lt [of "Suc 0" V r i] by simp
    finally show "velem (Suc 0) V r i div 2 ^ c mod 256 = velem (Suc 0) V r i div 2 ^ c" by simp
  qed
  show ?thesis
    using assms
    by (simp add: emit_i8x16_shl_def emit_i8x16_shr_s_def emit_i8x16_shr_u_def
          vupd_def vl_def vlmax_def Let_def rd_gpr_wr_gpr velem_vwrite_same unat_and_7 lt m1
          nat_mod_distrib)
qed

theorem C10_i8x16_shift_count_masked_witness:
  "(\<exists>s'. run (emit_i8x16_shl (FpReg 1) (FpReg 2) (GpReg 11)) machine0 = Some s'
      \<and> rd_gpr s' 11 = 4 \<and> velem 1 (vrf s') 1 3 = 96)
   \<and> (\<exists>s'. run (emit_i8x16_shr_s (FpReg 1) (FpReg 2) (GpReg 11)) machine0 = Some s'
      \<and> rd_gpr s' 11 = 4 \<and> velem 1 (vrf s') 1 3 = 255)
   \<and> (\<exists>s'. run (emit_i8x16_shr_u (FpReg 1) (FpReg 2) (GpReg 11)) machine0 = Some s'
      \<and> rd_gpr s' 11 = 4 \<and> velem 1 (vrf s') 1 3 = 15)"
proof -
  have h: "gp (GpReg 11) \<noteq> kScratchReg" by (simp add: kScratchReg_def)
  have c: "rd_gpr machine0 11 = 124" by (simp add: machine0_def rd_gpr_def zero_reg_def)
  have a: "velem (Suc 0) (vrf machine0) 2 3 = 246" by (simp add: machine0_def velem_def)
  have m: "(124 :: 64 word) AND 7 = 4" by simp
  have i: "(3 :: nat) < 16" by simp
  show ?thesis
    using C10_i8x16_shift_count_masked [OF h, of "FpReg 1" "FpReg 2" machine0] i
    by (auto simp add: c a m toV_def sext_def)
qed

section \<open>Results: bits of the vector register file\<close>

lemma bit_velem:
  assumes "j < 8 * b"
  shows "bit (velem b V r e) j = vbit V r (e * (8 * b) + j)"
proof -
  have d: "j div 8 < b" using assms by (simp add: less_mult_imp_div_less mult.commute)
  have "(e * (8 * b) + j) div 8 = e * b + j div 8"
    by (simp add: mult.assoc [symmetric] mult.commute [of _ 8] div_mult_self4 add.commute)
  moreover have "(e * (8 * b) + j) mod 8 = j mod 8"
    by (simp add: mult.left_commute [of e 8 b])
  ultimately show ?thesis
    using d by (simp add: velem_def vbit_def bit_le_nat add.assoc)
qed

lemma vbit_velem:
  assumes "0 < b"
  shows "vbit V r i = bit (velem b V r (i div (8 * b))) (i mod (8 * b))"
proof -
  have "i mod (8 * b) < 8 * b" using assms by simp
  then have "bit (velem b V r (i div (8 * b))) (i mod (8 * b))
             = vbit V r (i div (8 * b) * (8 * b) + i mod (8 * b))"
    by (rule bit_velem)
  also have "i div (8 * b) * (8 * b) + i mod (8 * b) = i"
    by (rule div_mult_mod_eq)
  finally show ?thesis by simp
qed

lemma bit_mod_256_pow: "j < 8 * b \<Longrightarrow> bit (x mod 256 ^ b :: nat) j = bit x j"
proof -
  assume a: "j < 8 * b"
  have "(256 :: nat) ^ b = 2 ^ (8 * b)" by (simp add: power_mult)
  then have "x mod 256 ^ b = take_bit (8 * b) x" by (simp add: take_bit_eq_mod)
  then show ?thesis using a by (simp add: bit_take_bit_iff)
qed

lemma vbit_vwrite_same:
  assumes "0 < b" "i div (8 * b) < n"
  shows "vbit (vwrite b n f V r) r i = bit (f (i div (8 * b))) (i mod (8 * b))"
proof -
  have "i mod (8 * b) < 8 * b" using assms(1) by simp
  then show ?thesis
    using assms by (simp add: vbit_velem [of b] velem_vwrite_same bit_mod_256_pow)
qed

lemma vbit_vwrite_other:
  assumes "16 * r + n * b \<le> 16 * r' + i div 8 \<or> 16 * r' + i div 8 < 16 * r"
  shows "vbit (vwrite b n f V r) r' i = vbit V r' i"
  using assms by (auto simp add: vbit_def vwrite_def)

section \<open>Results: lane replace and extract\<close>

lemma vmask_one_hot:
  assumes "idx < 4" "i < 4"
  shows "vmask (vwrite 4 (Suc 0) (\<lambda>_. unat (of_int (push_bit idx 1) :: 64 word)) V v0) i = (i = idx)"
proof -
  have "i div (8 * 4) = 0" "i mod (8 * 4) = i" using assms by simp_all
  then show ?thesis
    using assms
    by (simp add: vmask_def vbit_vwrite_same [of 4] bit_unsigned_iff bit_exp_iff push_bit_eq_mult)
qed

lemma ucast_sext32: "(ucast (of_int (sext 4 y) :: 64 word) :: 32 word) = of_nat y"
proof -
  have p: "(256 :: nat) ^ 4 = 2 ^ 32" by simp
  have "(of_int (sext 4 y) :: 32 word) = of_nat y"
  proof -
    have "(of_int (int (y mod 2 ^ 32)) :: 32 word) = of_nat y"
      by (simp add: word_of_nat_eq_iff take_bit_eq_mod)
    moreover have "(of_int (int (y mod 2 ^ 32) - 2 ^ 32) :: 32 word) = of_int (int (y mod 2 ^ 32))"
      by simp
    ultimately show ?thesis by (simp add: sext_def del: of_nat_mod)
  qed
  moreover have "(ucast (of_int (sext 4 y) :: 64 word) :: 32 word) = of_int (sext 4 y)"
    by (rule bit_word_eqI) (simp add: bit_simps)
  ultimately show ?thesis by simp
qed


lemma ucast_sext32_mod: "(ucast (of_int (sext 4 (unat x mod 4294967296)) :: 64 word) :: 32 word) = ucast (x :: 64 word)"
proof -
  have "unat x mod 4294967296 = take_bit 32 (unat x)" by (simp add: take_bit_eq_mod)
  moreover have "(of_nat (take_bit 32 (unat x)) :: 32 word) = ucast x"
    by (rule bit_word_eqI) (simp add: bit_simps)
  ultimately show ?thesis by (simp only: ucast_sext32)
qed

lemma vmask_one_hot_exp:
  assumes "idx < 4" "i < 4"
  shows "vmask (vwrite 4 (Suc 0) (\<lambda>_. unat (2 ^ idx :: 64 word)) V v0) i = (i = idx)"
  using vmask_one_hot [OF assms, of V] by (simp add: push_bit_eq_mult)

lemma velem4_mod [simp]: "velem 4 V r i mod 4294967296 = velem 4 V r i"
  using velem_lt [of 4 V r i] by simp

text \<open>
  C8.  For every vector of 32-bit lanes in \<open>src1\<close>, every lane index below 4 and every
  scalar in \<open>src2\<close>, the sequence of \<open>emit_i32x4_replace_lane\<close> leaves in \<open>dst\<close>
  the low 32 bits of the scalar in lane \<open>idx\<close> and in every other lane the lane of
  \<open>src1\<close> as it was; the sequence of \<open>emit_i32x4_extract_lane\<close> run after it on
  \<open>dst\<close> and the same index yields the scalar (as a 32-bit value) in the general register
  \<open>out\<close>.  The vector is in a register other than the mask register \<open>v0\<close> and the
  scalar in a register other than the scratch register, both of which the sequence
  overwrites; \<open>out\<close> is not the zero register.
\<close>

theorem C8_i32x4_replace_then_extract_lane:
  assumes "idx < 4" "toV (fp src1) \<noteq> v0" "gp src2 \<noteq> kScratchReg"
  shows "\<exists>s'. run (emit_i32x4_replace_lane dst src1 src2 idx) s = Some s'
      \<and> velem 4 (vrf s') (toV (fp dst)) idx = unat (rd_gpr s (gp src2)) mod 2 ^ 32
      \<and> (\<forall>i<4. i \<noteq> idx \<longrightarrow>
            velem 4 (vrf s') (toV (fp dst)) i = velem 4 (vrf s) (toV (fp src1)) i)
      \<and> (gp out \<noteq> zero_reg \<longrightarrow>
           (\<exists>s''. run (emit_i32x4_extract_lane out dst idx) s' = Some s''
              \<and> (ucast (rd_gpr s'' (gp out)) :: 32 word) = ucast (rd_gpr s (gp src2))))"
proof -
  have nz: "0 < toV (fp src1)" using assms(2) by (simp add: v0_def)
  have other: "\<And>f V i. velem 4 (vwrite 4 (Suc 0) f V v0) (toV (fp src1)) i = velem 4 V (toV (fp src1)) i"
    using nz by (intro velem_vwrite_other) (simp add: v0_def)
  have ks: "kScratchReg \<noteq> zero_reg" by (simp add: reg_defs)
  show ?thesis
    using assms ks
    by (simp add: emit_i32x4_replace_lane_def emit_i32x4_extract_lane_def
          vupd_def vl_def vlmax_def Let_def rd_gpr_wr_gpr velem_vwrite_same
          vmask_one_hot_exp other ucast_sext32_mod)
qed


theorem C8_i32x4_replace_then_extract_lane_witness:
  "\<exists>s'. run (emit_i32x4_replace_lane (FpReg 1) (FpReg 2) (GpReg 11) 2) machine0 = Some s'
      \<and> velem 4 (vrf s') 1 2 = 124
      \<and> velem 4 (vrf s') 1 1 = 302712061
      \<and> (\<exists>s''. run (emit_i32x4_extract_lane (GpReg 12) (FpReg 1) 2) s' = Some s''
            \<and> (ucast (rd_gpr s'' 12) :: 32 word) = 124)"
proof -
  have h: "(2 :: nat) < 4" "toV (fp (FpReg 2)) \<noteq> v0" "gp (GpReg 11) \<noteq> kScratchReg"
    by (simp_all add: toV_def v0_def kScratchReg_def)
  have z: "gp (GpReg 12) \<noteq> zero_reg" by (simp add: zero_reg_def)
  have c: "rd_gpr machine0 11 = 124" by (simp add: machine0_def rd_gpr_def zero_reg_def)
  have u: "[0..<4] = [0, 1, 2, 3 :: nat]" by code_simp
  have a: "velem 4 (vrf machine0) 2 (Suc 0) = 302712061" by (simp add: machine0_def velem_def u)
  have i: "Suc 0 < 4" "Suc 0 \<noteq> 2" by simp_all
  show ?thesis
    using C8_i32x4_replace_then_extract_lane [OF h, where out = "GpReg 12" and dst = "FpReg 1" and s = machine0] z i
    by (auto simp add: c a toV_def)
qed

section \<open>Results: rounding average\<close>

lemma avg8: "a < 256 \<Longrightarrow> b < 256 \<Longrightarrow>
   min 255 (Suc ((a + b) mod 65536) mod 65536 div 2) = Suc (a + b) div 2" for a b :: nat
  by simp

lemma avg16: "a < 65536 \<Longrightarrow> b < 65536 \<Longrightarrow>
   min 65535 (Suc ((a + b) mod 4294967296) mod 4294967296 div 2) = Suc (a + b) div 2" for a b :: nat
  by simp

lemma avg8_mod: "a < 256 \<Longrightarrow> b < 256 \<Longrightarrow> Suc (a + b) div 2 mod 256 = Suc (a + b) div 2"
  for a b :: nat
  by simp

lemma avg16_mod: "a < 65536 \<Longrightarrow> b < 65536 \<Longrightarrow> Suc (a + b) div 2 mod 65536 = Suc (a + b) div 2"
  for a b :: nat
  by simp

text \<open>
  C5.  For every pair of unsigned values \<open>a\<close>, \<open>b\<close> in a lane of \<open>lhs\<close> and
  \<open>rhs\<close>, the sequences of \<open>emit_i8x16_rounding_average_u\<close> (16 lanes of 8 bits) and
  \<open>emit_i16x8_rounding_average_u\<close> (8 lanes of 16 bits) leave \<open>(a + b + 1) div 2\<close> in
  that lane of \<open>dst\<close>: the sum is formed in twice the width and does not wrap.  The
  registers are such that no instruction of the sequence is a reserved encoding: the
  operands are not the first scratch register and the destination is not the upper
  register of the third scratch register's group.
\<close>

theorem C5_rounding_average_u:
  assumes "toV (fp lhs) \<noteq> kSimd128ScratchReg" "toV (fp rhs) \<noteq> kSimd128ScratchReg"
    "toV (fp dst) \<noteq> Suc kSimd128ScratchReg3"
  shows "(\<exists>s'. run (emit_i8x16_rounding_average_u dst lhs rhs) s = Some s'
      \<and> (\<forall>i<16. velem 1 (vrf s') (toV (fp dst)) i =
            (velem 1 (vrf s) (toV (fp lhs)) i + velem 1 (vrf s) (toV (fp rhs)) i + 1) div 2))
   \<and> (\<exists>s'. run (emit_i16x8_rounding_average_u dst lhs rhs) s = Some s'
      \<and> (\<forall>i<8. velem 2 (vrf s') (toV (fp dst)) i =
            (velem 2 (vrf s) (toV (fp lhs)) i + velem 2 (vrf s) (toV (fp rhs)) i + 1) div 2))"
proof -
  have b1: "\<And>V r i. velem (Suc 0) V r i < 256" using velem_lt [of "Suc 0"] by simp
  have b2: "\<And>V r i. velem 2 V r i < 65536" using velem_lt [of 2] by simp
  have ks: "kScratchReg \<noteq> zero_reg" "kScratchReg2 \<noteq> zero_reg" "kScratchReg \<noteq> kScratchReg2"
    by (simp_all add: reg_defs)
  show ?thesis
    using ks assms
    by (simp add: emit_i8x16_rounding_average_u_def emit_i16x8_rounding_average_u_def
          vupd_def vl_def vlmax_def Let_def rd_gpr_wr_gpr velem_vwrite_same avg8 avg16 avg8_mod avg16_mod b1 b2)
qed

theorem C5_rounding_average_u_witness:
  "(\<exists>s'. run (emit_i8x16_rounding_average_u (FpReg 1) (FpReg 2) (FpReg 3)) machine0 = Some s'
      \<and> velem 1 (vrf s') 1 3 = 174)
   \<and> (\<exists>s'. run (emit_i16x8_rounding_average_u (FpReg 1) (FpReg 2) (FpReg 3)) machine0 = Some s'
      \<and> velem 2 (vrf s') 1 3 = 19011)
   \<and> (\<exists>s'. run (emit_i8x16_rounding_average_u (FpReg 1) (FpReg 2) (FpReg 3)) (machine_bytes 255) = Some s'
      \<and> velem 1 (vrf s') 1 3 = 255)
   \<and> (\<exists>s'. run (emit_i16x8_rounding_average_u (FpReg 1) (FpReg 2) (FpReg 3)) (machine_bytes 255) = Some s'
      \<and> velem 2 (vrf s') 1 3 = 65535)
   \<and> (\<exists>s'. run (emit_i8x16_rounding_average_u (FpReg 1) (FpReg 2) (FpReg 3)) (machine_bytes 0) = Some s'
      \<and> velem 1 (vrf s') 1 3 = 0)
   \<and> (\<exists>s'. run (emit_i16x8_rounding_average_u (FpReg 1) (FpReg 2) (FpReg 3)) (machine_bytes 0) = Some s'
      \<and> velem 2 (vrf s') 1 3 = 0)"
proof -
  have h: "toV (fp (FpReg 2)) \<noteq> kSimd128ScratchReg" "toV (fp (FpReg 3)) \<noteq> kSimd128ScratchReg"
    "toV (fp (FpReg 1)) \<noteq> Suc kSimd128ScratchReg3"
    by (simp_all add: vreg_defs)
  have u: "[0..<2] = [0, 1 :: nat]" by code_simp
  have a: "velem (Suc 0) (vrf machine0) 2 3 = 246" "velem (Suc 0) (vrf machine0) 3 3 = 102"
    "velem 2 (vrf machine0) 2 3 = 4619" "velem 2 (vrf machine0) 3 3 = 33403"
    "\<And>r. velem (Suc 0) (vrf (machine_bytes 255)) r 3 = 255"
    "\<And>r. velem 2 (vrf (machine_bytes 255)) r 3 = 65535"
    "\<And>r. velem (Suc 0) (vrf (machine_bytes 0)) r 3 = 0"
    "\<And>r. velem 2 (vrf (machine_bytes 0)) r 3 = 0"
    by (simp_all add: machine0_def machine_bytes_def velem_def u)
  have i: "(3 :: nat) < 16" "(3 :: nat) < 8" by simp_all
  show ?thesis
    using C5_rounding_average_u [OF h, of machine0] C5_rounding_average_u [OF h, of "machine_bytes 255"]
      C5_rounding_average_u [OF h, of "machine_bytes 0"] i
    by (auto simp add: a toV_def)
qed

section \<open>Results: mask registers\<close>

lemma vbit_vwrite_mask_same:
  assumes "i < n" "i < 128"
  shows "vbit (vwrite_mask n p V r) r i = p i"
proof -
  have d: "i div 8 < 16" using assms(2) by simp
  have m: "i mod 8 < 8" by simp
  have e: "8 * (i div 8) + i mod 8 = i" by simp
  show ?thesis
    using d m assms(1)
    by (simp add: vbit_def vwrite_mask_def bit_horner_sum_bit_word_iff e del: mult_div_mod_eq)
qed

lemma vbit_vwrite_mask_other:
  assumes "r' \<noteq> r" "i < 128"
  shows "vbit (vwrite_mask n p V r) r' i = vbit V r' i"
proof -
  have "i div 8 < 16" using assms(2) by simp
  then have "\<not> (16 * r \<le> 16 * r' + i div 8 \<and> 16 * r' + i div 8 < 16 * r + 16)"
    using assms(1) by arith
  then show ?thesis unfolding vbit_def vwrite_mask_def by (simp only: if_False)
qed

lemma velem_vwrite_mask_other:
  assumes "r' \<noteq> r" "(i + 1) * b \<le> 16"
  shows "velem b (vwrite_mask n p V r) r' i = velem b V r' i"
proof -
  have "map (\<lambda>k. vwrite_mask n p V r (16 * r' + i * b + k)) [0..<b]
        = map (\<lambda>k. V (16 * r' + i * b + k)) [0..<b]"
  proof (rule map_cong [OF refl])
    fix k assume "k \<in> set [0..<b]"
    then have "i * b + k < (i + 1) * b" by simp
    then have "i * b + k < 16" using assms(2) by simp
    then have "\<not> (16 * r \<le> 16 * r' + i * b + k \<and> 16 * r' + i * b + k < 16 * r + 16)"
      using assms(1) by arith
    then show "vwrite_mask n p V r (16 * r' + i * b + k) = V (16 * r' + i * b + k)"
      unfolding vwrite_mask_def by (simp only: if_False)
  qed
  then show ?thesis unfolding velem_def by (simp only:)
qed

lemma fp_eq_self: "fp_eq ew mw x x = (\<not> fp_is_nan ew mw x)"
  by (simp add: fp_eq_def)

section \<open>Results: float minimum and maximum\<close>

lemma lane4_vwrite_other:
  "r' \<noteq> r \<Longrightarrow> i < 4 \<Longrightarrow> velem 4 (vwrite 4 4 f V r) r' i = velem 4 V r' i"
  by (rule velem_vwrite_other) arith

lemma lane4_vwrite_mask_other:
  "r' \<noteq> r \<Longrightarrow> i < 4 \<Longrightarrow> velem 4 (vwrite_mask n p V r) r' i = velem 4 V r' i"
  by (rule velem_vwrite_mask_other) simp_all

lemma vbit4_vwrite_other:
  "r' \<noteq> r \<Longrightarrow> i < 4 \<Longrightarrow> vbit (vwrite 4 4 f V r) r' i = vbit V r' i"
  by (rule vbit_vwrite_other) arith

lemma vmask_and4:
  assumes "i < 4"
  shows "vmask (vwrite 4 4 (\<lambda>i. velem 4 V v0 i AND velem 4 V r i) V v0) i
         = (vbit V v0 i \<and> vbit V r i)"
proof -
  have a: "i div 32 = 0" "i mod 32 = i" using assms by simp_all
  have b: "i < 8 * 4" using assms by simp
  have "vmask (vwrite 4 4 (\<lambda>i. velem 4 V v0 i AND velem 4 V r i) V v0) i
        = bit (velem 4 V v0 0 AND velem 4 V r 0) i"
    unfolding vmask_def using vbit_vwrite_same [of 4 i 4 "\<lambda>i. velem 4 V v0 i AND velem 4 V r i" V v0]
    by (simp add: a)
  also have "\<dots> = (vbit V v0 i \<and> vbit V r i)"
    using bit_velem [OF b, of V v0 0] bit_velem [OF b, of V r 0]
    by (simp add: bit_and_iff)
  finally show ?thesis .
qed


lemma minmax_lanes:
  assumes V1: "V1 = vwrite_mask 4 (\<lambda>i. \<not> fp_is_nan 8 23 (velem 4 V L i)) V v0"
    and V2: "V2 = vwrite_mask 4 (\<lambda>i. \<not> fp_is_nan 8 23 (velem 4 V1 R i)) V1 kSimd128ScratchReg"
    and V3: "V3 = vwrite 4 4 (\<lambda>i. velem 4 V2 v0 i AND velem 4 V2 kSimd128ScratchReg i) V2 v0"
    and V4: "V4 = vwrite 4 4 (\<lambda>i. 2143289344) V3 kSimd128ScratchReg"
    and V5: "V5 = vwrite 4 4 (\<lambda>i. if vmask V4 i then op (velem 4 V4 R i) (velem 4 V4 L i)
                                  else velem 4 V4 kSimd128ScratchReg i) V4 kSimd128ScratchReg"
    and V6: "V6 = vwrite 4 4 (\<lambda>i. velem 4 V5 kSimd128ScratchReg i) V5 D"
    and regs: "L \<noteq> v0" "L \<noteq> kSimd128ScratchReg" "R \<noteq> v0" "R \<noteq> kSimd128ScratchReg"
    and i: "i < 4"
  shows "velem 4 V6 D i =
           (if fp_is_nan 8 23 (velem 4 V L i) \<or> fp_is_nan 8 23 (velem 4 V R i)
            then 2143289344
            else op (velem 4 V R i) (velem 4 V L i) mod 4294967296)"
proof -
  have sv: "kSimd128ScratchReg \<noteq> v0" by (simp add: vreg_defs)
  have i128: "i < 128" using i by simp
  have L1: "velem 4 V1 L i = velem 4 V L i" and R1: "velem 4 V1 R i = velem 4 V R i"
    unfolding V1 using regs i by (simp_all add: lane4_vwrite_mask_other)
  have L4: "velem 4 V4 L i = velem 4 V L i"
    unfolding V4 V3 V2 using regs i L1
    by (simp add: lane4_vwrite_other lane4_vwrite_mask_other)
  have R4: "velem 4 V4 R i = velem 4 V R i"
    unfolding V4 V3 V2 using regs i R1
    by (simp add: lane4_vwrite_other lane4_vwrite_mask_other)
  have b0: "vbit V2 v0 i = (\<not> fp_is_nan 8 23 (velem 4 V L i))"
    unfolding V2 V1 using sv i i128
    by (simp add: vbit_vwrite_mask_other vbit_vwrite_mask_same)
  have bS: "vbit V2 kSimd128ScratchReg i = (\<not> fp_is_nan 8 23 (velem 4 V R i))"
    unfolding V2 using i i128 R1 by (simp add: vbit_vwrite_mask_same)
  have m3: "vmask V3 i = (\<not> fp_is_nan 8 23 (velem 4 V L i) \<and> \<not> fp_is_nan 8 23 (velem 4 V R i))"
    unfolding V3 using i by (simp add: vmask_and4 b0 bS)
  have m4: "vmask V4 i = vmask V3 i"
    unfolding V4 vmask_def using sv i by (simp add: vbit4_vwrite_other)
  have S4: "velem 4 V4 kSimd128ScratchReg i = 2143289344"
    unfolding V4 using i by (simp add: velem_vwrite_same)
  have "velem 4 V6 D i = velem 4 V5 kSimd128ScratchReg i"
    unfolding V6 using i by (simp add: velem_vwrite_same)
  also have "\<dots> = (if vmask V4 i then op (velem 4 V4 R i) (velem 4 V4 L i)
                     else velem 4 V4 kSimd128ScratchReg i) mod 4294967296"
    unfolding V5 using i by (simp add: velem_vwrite_same)
  finally show ?thesis
    by (simp add: m4 m3 L4 R4 S4)
qed

lemma f32x4_min_lanes:
  assumes "toV (fp lhs) \<noteq> v0" "toV (fp lhs) \<noteq> kSimd128ScratchReg"
    "toV (fp rhs) \<noteq> v0" "toV (fp rhs) \<noteq> kSimd128ScratchReg"
  shows "\<exists>s'. run (emit_f32x4_min dst lhs rhs) s = Some s'
      \<and> (\<forall>i<4. velem 4 (vrf s') (toV (fp dst)) i =
            (if fp_is_nan 8 23 (velem 4 (vrf s) (toV (fp lhs)) i)
                \<or> fp_is_nan 8 23 (velem 4 (vrf s) (toV (fp rhs)) i)
             then 2143289344
             else fp_min 8 23 (velem 4 (vrf s) (toV (fp rhs)) i) (velem 4 (vrf s) (toV (fp lhs)) i)
                  mod 4294967296))"
proof -
  define V L R where "V = vrf s" and "L = toV (fp lhs)" and "R = toV (fp rhs)"
  define V1 where "V1 = vwrite_mask 4 (\<lambda>i. \<not> fp_is_nan 8 23 (velem 4 V L i)) V v0"
  define V2 where "V2 = vwrite_mask 4 (\<lambda>i. \<not> fp_is_nan 8 23 (velem 4 V1 R i)) V1 kSimd128ScratchReg"
  define V3 where "V3 = vwrite 4 4 (\<lambda>i. velem 4 V2 v0 i AND velem 4 V2 kSimd128ScratchReg i) V2 v0"
  define V4 where "V4 = vwrite 4 4 (\<lambda>i. 2143289344) V3 kSimd128ScratchReg"
  define V5 where "V5 = vwrite 4 4 (\<lambda>i. if vmask V4 i then fp_min 8 23 (velem 4 V4 R i) (velem 4 V4 L i)
                                  else velem 4 V4 kSimd128ScratchReg i) V4 kSimd128ScratchReg"
  define V6 where "V6 = vwrite 4 4 (\<lambda>i. velem 4 V5 kSimd128ScratchReg i) V5 (toV (fp dst))"
  have ks: "kScratchReg \<noteq> zero_reg" by (simp add: reg_defs)
  have r: "\<exists>s'. run (emit_f32x4_min dst lhs rhs) s = Some s' \<and> vrf s' = V6"
    unfolding V6_def V5_def V4_def V3_def V2_def V1_def V_def L_def R_def
    using ks
    by (simp add: emit_f32x4_min_def vupd_def vl_def vlmax_def Let_def rd_gpr_wr_gpr fp_eq_self)
  have "\<And>i. i < 4 \<Longrightarrow> velem 4 V6 (toV (fp dst)) i =
           (if fp_is_nan 8 23 (velem 4 V L i) \<or> fp_is_nan 8 23 (velem 4 V R i)
            then 2143289344
            else fp_min 8 23 (velem 4 V R i) (velem 4 V L i) mod 4294967296)"
    using assms
    by (intro minmax_lanes [OF V1_def V2_def V3_def V4_def V5_def V6_def])
       (simp_all add: L_def R_def)
  with r show ?thesis by (auto simp add: V_def L_def R_def)
qed

lemma f32x4_max_lanes:
  assumes "toV (fp lhs) \<noteq> v0" "toV (fp lhs) \<noteq> kSimd128ScratchReg"
    "toV (fp rhs) \<noteq> v0" "toV (fp rhs) \<noteq> kSimd128ScratchReg"
  shows "\<exists>s'. run (emit_f32x4_max dst lhs rhs) s = Some s'
      \<and> (\<forall>i<4. velem 4 (vrf s') (toV (fp dst)) i =
            (if fp_is_nan 8 23 (velem 4 (vrf s) (toV (fp lhs)) i)
                \<or> fp_is_nan 8 23 (velem 4 (vrf s) (toV (fp rhs)) i)
             then 2143289344
             else fp_max 8 23 (velem 4 (vrf s) (toV (fp rhs)) i) (velem 4 (vrf s) (toV (fp lhs)) i)
                  mod 4294967296))"
proof -
  define V L R where "V = vrf s" and "L = toV (fp lhs)" and "R = toV (fp rhs)"
  define V1 where "V1 = vwrite_mask 4 (\<lambda>i. \<not> fp_is_nan 8 23 (velem 4 V L i)) V v0"
  define V2 where "V2 = vwrite_mask 4 (\<lambda>i. \<not> fp_is_nan 8 23 (velem 4 V1 R i)) V1 kSimd128ScratchReg"
  define V3 where "V3 = vwrite 4 4 (\<lambda>i. velem 4 V2 v0 i AND velem 4 V2 kSimd128ScratchReg i) V2 v0"
  define V4 where "V4 = vwrite 4 4 (\<lambda>i. 2143289344) V3 kSimd128ScratchReg"
  define V5 where "V5 = vwrite 4 4 (\<lambda>i. if vmask V4 i then fp_max 8 23 (velem 4 V4 R i) (velem 4 V4 L i)
                                  else velem 4 V4 kSimd128ScratchReg i) V4 kSimd128ScratchReg"
  define V6 where "V6 = vwrite 4 4 (\<lambda>i. velem 4 V5 kSimd128ScratchReg i) V5 (toV (fp dst))"
  have ks: "kScratchReg \<noteq> zero_reg" by (simp add: reg_defs)
  have r: "\<exists>s'. run (emit_f32x4_max dst lhs rhs) s = Some s' \<and> vrf s' = V6"
    unfolding V6_def V5_def V4_def V3_def V2_def V1_def V_def L_def R_def
    using ks
    by (simp add: emit_f32x4_max_def vupd_def vl_def vlmax_def Let_def rd_gpr_wr_gpr fp_eq_self)
  have "\<And>i. i < 4 \<Longrightarrow> velem 4 V6 (toV (fp dst)) i =
           (if fp_is_nan 8 23 (velem 4 V L i) \<or> fp_is_nan 8 23 (velem 4 V R i)
            then 2143289344
            else fp_max 8 23 (velem 4 V R i) (velem 4 V L i) mod 4294967296)"
    using assms
    by (intro minmax_lanes [OF V1_def V2_def V3_def V4_def V5_def V6_def])
       (simp_all add: L_def R_def)
  with r show ?thesis by (auto simp add: V_def L_def R_def)
qed


lemma fp_min_max_props:
  assumes "\<not> fp_is_nan ew mw a" "\<not> fp_is_nan ew mw b"
  shows "(fp_min ew mw b a = a \<or> fp_min ew mw b a = b)
       \<and> fp_key ew mw (fp_min ew mw b a) \<le> fp_key ew mw a
       \<and> fp_key ew mw (fp_min ew mw b a) \<le> fp_key ew mw b
       \<and> (fp_max ew mw b a = a \<or> fp_max ew mw b a = b)
       \<and> fp_key ew mw a \<le> fp_key ew mw (fp_max ew mw b a)
       \<and> fp_key ew mw b \<le> fp_key ew mw (fp_max ew mw b a)"
  using assms by (simp add: fp_min_def fp_max_def)

lemma fp_min_max_mod:
  "fp_min 8 23 (velem 4 V r i) (velem 4 V' r' i') mod 4294967296
     = fp_min 8 23 (velem 4 V r i) (velem 4 V' r' i')"
  "fp_max 8 23 (velem 4 V r i) (velem 4 V' r' i') mod 4294967296
     = fp_max 8 23 (velem 4 V r i) (velem 4 V' r' i')"
  using velem_lt [of 4 V r i] velem_lt [of 4 V' r' i']
  by (simp_all add: fp_min_def fp_max_def fp_canonical_nan_def)

text \<open>
  C4.  For every pair of vectors of four 32-bit float lanes in \<open>lhs\<close> and \<open>rhs\<close>, the
  sequences of \<open>emit_f32x4_min\<close> and \<open>emit_f32x4_max\<close> leave in every lane of
  \<open>dst\<close>: the canonical quiet NaN \<open>0x7FC00000\<close> when the lane of \<open>lhs\<close> or the lane
  of \<open>rhs\<close> is a NaN (the condition is symmetric in the operands); otherwise one of the
  two lanes, the one that is least (for max: greatest) in the order of the numbers, with
  \<open>-0\<close> below \<open>+0\<close>.  The operands are in registers other than the mask register
  \<open>v0\<close> and the scratch register, which the sequence overwrites.
\<close>

theorem C4_f32x4_min_max:
  assumes "toV (fp lhs) \<noteq> v0" "toV (fp lhs) \<noteq> kSimd128ScratchReg"
    "toV (fp rhs) \<noteq> v0" "toV (fp rhs) \<noteq> kSimd128ScratchReg"
  shows "(\<exists>s'. run (emit_f32x4_min dst lhs rhs) s = Some s'
      \<and> (\<forall>i<4.
           let a = velem 4 (vrf s) (toV (fp lhs)) i; b = velem 4 (vrf s) (toV (fp rhs)) i;
               r = velem 4 (vrf s') (toV (fp dst)) i
           in (fp_is_nan 8 23 a \<or> fp_is_nan 8 23 b \<longrightarrow> r = 0x7FC00000)
            \<and> (\<not> fp_is_nan 8 23 a \<and> \<not> fp_is_nan 8 23 b \<longrightarrow>
                 (r = a \<or> r = b) \<and> fp_key 8 23 r \<le> fp_key 8 23 a
                 \<and> fp_key 8 23 r \<le> fp_key 8 23 b)))
   \<and> (\<exists>s'. run (emit_f32x4_max dst lhs rhs) s = Some s'
      \<and> (\<forall>i<4.
           let a = velem 4 (vrf s) (toV (fp lhs)) i; b = velem 4 (vrf s) (toV (fp rhs)) i;
               r = velem 4 (vrf s') (toV (fp dst)) i
           in (fp_is_nan 8 23 a \<or> fp_is_nan 8 23 b \<longrightarrow> r = 0x7FC00000)
            \<and> (\<not> fp_is_nan 8 23 a \<and> \<not> fp_is_nan 8 23 b \<longrightarrow>
                 (r = a \<or> r = b) \<and> fp_key 8 23 a \<le> fp_key 8 23 r
                 \<and> fp_key 8 23 b \<le> fp_key 8 23 r)))"
proof (intro conjI)
  obtain s' where s': "run (emit_f32x4_min dst lhs rhs) s = Some s'"
    and l: "\<And>i. i < 4 \<Longrightarrow> velem 4 (vrf s') (toV (fp dst)) i =
            (if fp_is_nan 8 23 (velem 4 (vrf s) (toV (fp lhs)) i)
                \<or> fp_is_nan 8 23 (velem 4 (vrf s) (toV (fp rhs)) i)
             then 2143289344
             else fp_min 8 23 (velem 4 (vrf s) (toV (fp rhs)) i) (velem 4 (vrf s) (toV (fp lhs)) i)
                  mod 4294967296)"
    using f32x4_min_lanes [OF assms, of dst s] by blast
  show "\<exists>s'. run (emit_f32x4_min dst lhs rhs) s = Some s'
      \<and> (\<forall>i<4.
           let a = velem 4 (vrf s) (toV (fp lhs)) i; b = velem 4 (vrf s) (toV (fp rhs)) i;
               r = velem 4 (vrf s') (toV (fp dst)) i
           in (fp_is_nan 8 23 a \<or> fp_is_nan 8 23 b \<longrightarrow> r = 0x7FC00000)
            \<and> (\<not> fp_is_nan 8 23 a \<and> \<not> fp_is_nan 8 23 b \<longrightarrow>
                 (r = a \<or> r = b) \<and> fp_key 8 23 r \<le> fp_key 8 23 a
                 \<and> fp_key 8 23 r \<le> fp_key 8 23 b))"
    using s' l fp_min_max_props [where ew = 8 and mw = 23]
    by (auto simp add: Let_def fp_min_max_mod)
next
  obtain s' where s': "run (emit_f32x4_max dst lhs rhs) s = Some s'"
    and l: "\<And>i. i < 4 \<Longrightarrow> velem 4 (vrf s') (toV (fp dst)) i =
            (if fp_is_nan 8 23 (velem 4 (vrf s) (toV (fp lhs)) i)
                \<or> fp_is_nan 8 23 (velem 4 (vrf s) (toV (fp rhs)) i)
             then 2143289344
             else fp_max 8 23 (velem 4 (vrf s) (toV (fp rhs)) i) (velem 4 (vrf s) (toV (fp lhs)) i)
                  mod 4294967296)"
    using f32x4_max_lanes [OF assms, of dst s] by blast
  show "\<exists>s'. run (emit_f32x4_max dst lhs rhs) s = Some s'
      \<and> (\<forall>i<4.
           let a = velem 4 (vrf s) (toV (fp lhs)) i; b = velem 4 (vrf s) (toV (fp rhs)) i;
               r = velem 4 (vrf s') (toV (fp dst)) i
           in (fp_is_nan 8 23 a \<or> fp_is_nan 8 23 b \<longrightarrow> r = 0x7FC00000)
            \<and> (\<not> fp_is_nan 8 23 a \<and> \<not> fp_is_nan 8 23 b \<longrightarrow>
                 (r = a \<or> r = b) \<and> fp_key 8 23 a \<le> fp_key 8 23 r
                 \<and> fp_key 8 23 b \<le> fp_key 8 23 r))"
    using s' l fp_min_max_props [where ew = 8 and mw = 23]
    by (auto simp add: Let_def fp_min_max_mod)
qed


theorem C4_f32x4_min_max_witness:
  "(\<exists>s'. run (emit_f32x4_min (FpReg 1) (FpReg 2) (FpReg 3)) machine0 = Some s'
      \<and> velem 4 (vrf s') 1 1 = 2189128813)
   \<and> (\<exists>s'. run (emit_f32x4_max (FpReg 1) (FpReg 2) (FpReg 3)) machine0 = Some s'
      \<and> velem 4 (vrf s') 1 1 = 302712061)
   \<and> (\<exists>s'. run (emit_f32x4_min (FpReg 1) (FpReg 2) (FpReg 3)) (machine_bytes 255) = Some s'
      \<and> velem 4 (vrf s') 1 1 = 0x7FC00000)
   \<and> (\<exists>s'. run (emit_f32x4_max (FpReg 1) (FpReg 2) (FpReg 3)) (machine_bytes 255) = Some s'
      \<and> velem 4 (vrf s') 1 1 = 0x7FC00000)"
proof -
  have h: "toV (fp (FpReg 2)) \<noteq> v0" "toV (fp (FpReg 2)) \<noteq> kSimd128ScratchReg"
    "toV (fp (FpReg 3)) \<noteq> v0" "toV (fp (FpReg 3)) \<noteq> kSimd128ScratchReg"
    by (simp_all add: vreg_defs)
  have u: "[0..<4] = [0, 1, 2, 3 :: nat]" by code_simp
  have a: "velem 4 (vrf machine0) 2 (Suc 0) = 302712061"
    "velem 4 (vrf machine0) 3 (Suc 0) = 2189128813"
    "\<And>r. velem 4 (vrf (machine_bytes 255)) r (Suc 0) = 4294967295"
    by (simp_all add: machine0_def machine_bytes_def velem_def u)
  have n: "\<not> fp_is_nan 8 23 302712061" "\<not> fp_is_nan 8 23 2189128813"
    "fp_is_nan 8 23 4294967295"
    "fp_key 8 23 302712061 = 302712061" "fp_key 8 23 2189128813 = - 41645166"
    by (simp_all add: fp_is_nan_def fp_key_def)
  have i: "Suc 0 < 4" by simp
  note t0 = C4_f32x4_min_max [OF h, where dst = "FpReg 1" and s = machine0]
  note tn = C4_f32x4_min_max [OF h, where dst = "FpReg 1" and s = "machine_bytes 255"]
  from t0 obtain s1 where r1: "run (emit_f32x4_min (FpReg 1) (FpReg 2) (FpReg 3)) machine0 = Some s1"
    and q1: "\<forall>i<4.
           let a = velem 4 (vrf machine0) (toV (fp (FpReg 2))) i;
               b = velem 4 (vrf machine0) (toV (fp (FpReg 3))) i;
               r = velem 4 (vrf s1) (toV (fp (FpReg 1))) i
           in (fp_is_nan 8 23 a \<or> fp_is_nan 8 23 b \<longrightarrow> r = 0x7FC00000)
            \<and> (\<not> fp_is_nan 8 23 a \<and> \<not> fp_is_nan 8 23 b \<longrightarrow>
                 (r = a \<or> r = b) \<and> fp_key 8 23 r \<le> fp_key 8 23 a
                 \<and> fp_key 8 23 r \<le> fp_key 8 23 b)"
    by blast
  from t0 obtain s2 where r2: "run (emit_f32x4_max (FpReg 1) (FpReg 2) (FpReg 3)) machine0 = Some s2"
    and q2: "\<forall>i<4.
           let a = velem 4 (vrf machine0) (toV (fp (FpReg 2))) i;
               b = velem 4 (vrf machine0) (toV (fp (FpReg 3))) i;
               r = velem 4 (vrf s2) (toV (fp (FpReg 1))) i
           in (fp_is_nan 8 23 a \<or> fp_is_nan 8 23 b \<longrightarrow> r = 0x7FC00000)
            \<and> (\<not> fp_is_nan 8 23 a \<and> \<not> fp_is_nan 8 23 b \<longrightarrow>
                 (r = a \<or> r = b) \<and> fp_key 8 23 a \<le> fp_key 8 23 r
                 \<and> fp_key 8 23 b \<le> fp_key 8 23 r)"
    by blast
  from tn obtain s3 where r3: "run (emit_f32x4_min (FpReg 1) (FpReg 2) (FpReg 3)) (machine_bytes 255) = Some s3"
    and q3: "\<forall>i<4.
           let a = velem 4 (vrf (machine_bytes 255)) (toV (fp (FpReg 2))) i;
               b = velem 4 (vrf (machine_bytes 255)) (toV (fp (FpReg 3))) i;
               r = velem 4 (vrf s3) (toV (fp (FpReg 1))) i
           in (fp_is_nan 8 23 a \<or> fp_is_nan 8 23 b \<longrightarrow> r = 0x7FC00000)
            \<and> (\<not> fp_is_nan 8 23 a \<and> \<not> fp_is_nan 8 23 b \<longrightarrow>
                 (r = a \<or> r = b) \<and> fp_key 8 23 r \<le> fp_key 8 23 a
                 \<and> fp_key 8 23 r \<le> fp_key 8 23 b)"
    by blast
  from tn obtain s4 where r4: "run (emit_f32x4_max (FpReg 1) (FpReg 2) (FpReg 3)) (machine_bytes 255) = Some s4"
    and q4: "\<forall>i<4.
           let a = velem 4 (vrf (machine_bytes 255)) (toV (fp (FpReg 2))) i;
               b = velem 4 (vrf (machine_bytes 255)) (toV (fp (FpReg 3))) i;
               r = velem 4 (vrf s4) (toV (fp (FpReg 1))) i
           in (fp_is_nan 8 23 a \<or> fp_is_nan 8 23 b \<longrightarrow> r = 0x7FC00000)
            \<and> (\<not> fp_is_nan 8 23 a \<and> \<not> fp_is_nan 8 23 b \<longrightarrow>
                 (r = a \<or> r = b) \<and> fp_key 8 23 a \<le> fp_key 8 23 r
                 \<and> fp_key 8 23 b \<le> fp_key 8 23 r)"
    by blast
  have "velem 4 (vrf s1) 1 1 = 2189128813"
    using q1 [rule_format, OF i] by (auto simp add: a n toV_def Let_def)
  moreover have "velem 4 (vrf s2) 1 1 = 302712061"
    using q2 [rule_format, OF i] by (auto simp add: a n toV_def Let_def)
  moreover have "velem 4 (vrf s3) 1 1 = 0x7FC00000"
    using q3 [rule_format, OF i] by (simp add: a n toV_def Let_def)
  moreover have "velem 4 (vrf s4) 1 1 = 0x7FC00000"
    using q4 [rule_format, OF i] by (simp add: a n toV_def Let_def)
  ultimately show ?thesis using r1 r2 r3 r4 by simp
qed

section \<open>Results: register save and restore\<close>

lemma run_append:
  "run (xs @ ys) s = (case run xs s of None \<Rightarrow> None | Some s' \<Rightarrow> run ys s')"
  by (induction xs arbitrary: s) (auto split: option.splits)

lemma run_push_gp_loop: "\<exists>s'. run (push_gp_loop g off) s = Some s' \<and> gpr s' = gpr s"
proof (induction g off arbitrary: s rule: push_gp_loop.induct)
  case (1 g off)
  show ?case
  proof (cases "g = {||}")
    case True
    then show ?thesis by (simp add: push_gp_loop.simps)
  next
    case False
    obtain t where t: "exec (StoreWord (fMin g) (MemOperand sp (off - kSystemPointerSize))) s = Some t"
      and g: "gpr t = gpr s"
      by (simp add: do_StoreWord_def)
    from "1.IH" [OF False, of t] g t False show ?thesis
      by (subst push_gp_loop.simps) auto
  qed
qed

lemma run_push_fp_loop: "\<exists>s'. run (push_fp_loop g off) s = Some s' \<and> gpr s' = gpr s"
proof (induction g off arbitrary: s rule: push_fp_loop.induct)
  case (1 g off)
  show ?case
  proof (cases "g = {||}")
    case True
    then show ?thesis by (simp add: push_fp_loop.simps)
  next
    case False
    obtain t where t: "exec (StoreDouble (fMin g) (MemOperand sp off)) s = Some t"
      and g: "gpr t = gpr s"
      by simp
    from "1.IH" [OF False, of t] g t False show ?thesis
      by (subst push_fp_loop.simps) auto
  qed
qed

lemma pop_fp_loop_offset: "snd (pop_fp_loop g off) = off + sizeof_double * int (fcard g)"
proof (induction g off rule: pop_fp_loop.induct)
  case (1 g off)
  show ?case
  proof (cases "g = {||}")
    case True
    then show ?thesis by (simp add: pop_fp_loop.simps)
  next
    case False
    then have "0 < fcard g" by (cases "fcard g") simp_all
    with "1.IH" [OF False] False show ?thesis
      by (subst pop_fp_loop.simps) (simp add: split_beta algebra_simps of_nat_diff)
  qed
qed

lemma pop_gp_loop_offset: "snd (pop_gp_loop g off) = off + kSystemPointerSize * int (fcard g)"
proof (induction g off rule: pop_gp_loop.induct)
  case (1 g off)
  show ?case
  proof (cases "g = {||}")
    case True
    then show ?thesis by (simp add: pop_gp_loop.simps)
  next
    case False
    then have "0 < fcard g" by (cases "fcard g") simp_all
    with "1.IH" [OF False] False show ?thesis
      by (subst pop_gp_loop.simps) (simp add: split_beta algebra_simps of_nat_diff)
  qed
qed

lemma run_pop_fp_loop: "\<exists>s'. run (fst (pop_fp_loop g off)) s = Some s' \<and> gpr s' = gpr s"
proof (induction g off arbitrary: s rule: pop_fp_loop.induct)
  case (1 g off)
  show ?case
  proof (cases "g = {||}")
    case True
    then show ?thesis by (simp add: pop_fp_loop.simps)
  next
    case False
    obtain t where t: "exec (LoadDouble (fMin g) (MemOperand sp off)) s = Some t"
      and g: "gpr t = gpr s"
      by simp
    from "1.IH" [OF False, of t] g t False show ?thesis
      by (subst pop_fp_loop.simps) (auto simp add: split_beta)
  qed
qed

lemma run_pop_gp_loop:
  "sp |\<notin>| g \<Longrightarrow> \<exists>s'. run (fst (pop_gp_loop g off)) s = Some s' \<and> rd_gpr s' sp = rd_gpr s sp"
proof (induction g off arbitrary: s rule: pop_gp_loop.induct)
  case (1 g off)
  show ?case
  proof (cases "g = {||}")
    case True
    then show ?thesis by (simp add: pop_gp_loop.simps)
  next
    case False
    then have "fMax g |\<in>| g" by simp
    with "1.prems" have ne: "fMax g \<noteq> sp" by auto
    obtain t where t: "exec (LoadWord (fMax g) (MemOperand sp off)) s = Some t"
      and g: "rd_gpr t sp = rd_gpr s sp"
      using ne by (simp add: do_LoadWord_def rd_gpr_wr_gpr)
    have "sp |\<notin>| g |-| {|fMax g|}" using "1.prems" by simp
    from "1.IH" [OF False this, of t] g t False show ?thesis
      by (subst pop_gp_loop.simps) (auto simp add: split_beta)
  qed
qed


lemma run_AddWord_sp:
  "run (AddWord sp sp imm # code) s = run code (do_AddWord sp sp imm s)"
  "rd_gpr (do_AddWord sp sp imm s) sp = rd_gpr s sp + of_int imm"
  by (simp_all add: do_AddWord_def rd_gpr_wr_gpr reg_defs)

lemma push_sp:
  "\<exists>s1. run (PushRegisters G F regs) s = Some s1
      \<and> rd_gpr s1 sp = rd_gpr s sp
           - of_int (kSystemPointerSize * int (fcard (gp_set regs |\<inter>| G)))
           - of_int (kStackSlotSize * int (fcard (fp_set regs |\<inter>| F)))"
proof -
  define g f where "g = gp_set regs |\<inter>| G" and "f = fp_set regs |\<inter>| F"
  define gcode where "gcode = (if int (fcard g) \<noteq> 0
         then AddWord sp sp (- (int (fcard g) * kSystemPointerSize))
              # push_gp_loop g (int (fcard g) * kSystemPointerSize)
         else [])"
  define fcode where "fcode = (if int (fcard f) \<noteq> 0
           then AddWord sp sp (- (int (fcard f) * kStackSlotSize)) # push_fp_loop f 0
           else [])"
  have code: "PushRegisters G F regs = gcode @ fcode"
    by (simp add: PushRegisters_def gcode_def fcode_def g_def f_def Let_def)
  have 1: "\<exists>s1. run gcode s = Some s1
      \<and> rd_gpr s1 sp = rd_gpr s sp - of_int (kSystemPointerSize * int (fcard g))" for s
  proof (cases "fcard g = 0")
    case True
    then show ?thesis by (simp add: gcode_def fcard_fempty)
  next
    case False
    obtain s1 where "run (push_gp_loop g (int (fcard g) * kSystemPointerSize))
                       (do_AddWord sp sp (- (int (fcard g) * kSystemPointerSize)) s) = Some s1"
      and "gpr s1 = gpr (do_AddWord sp sp (- (int (fcard g) * kSystemPointerSize)) s)"
      using run_push_gp_loop by blast
    then have "run (push_gp_loop g (int (fcard g) * kSystemPointerSize))
                       (do_AddWord sp sp (- (int (fcard g) * kSystemPointerSize)) s) = Some s1"
      and "rd_gpr s1 sp = rd_gpr (do_AddWord sp sp (- (int (fcard g) * kSystemPointerSize)) s) sp"
      by (simp_all add: rd_gpr_def)
    then show ?thesis using False
      by (simp add: gcode_def run_AddWord_sp mult.commute)
  qed
  have 2: "\<exists>s1. run fcode s = Some s1
      \<and> rd_gpr s1 sp = rd_gpr s sp - of_int (kStackSlotSize * int (fcard f))" for s
  proof (cases "fcard f = 0")
    case True
    then show ?thesis by (simp add: fcode_def fcard_fempty)
  next
    case False
    obtain s1 where "run (push_fp_loop f 0)
                       (do_AddWord sp sp (- (int (fcard f) * kStackSlotSize)) s) = Some s1"
      and "gpr s1 = gpr (do_AddWord sp sp (- (int (fcard f) * kStackSlotSize)) s)"
      using run_push_fp_loop by blast
    then have "run (push_fp_loop f 0)
                       (do_AddWord sp sp (- (int (fcard f) * kStackSlotSize)) s) = Some s1"
      and "rd_gpr s1 sp = rd_gpr (do_AddWord sp sp (- (int (fcard f) * kStackSlotSize)) s) sp"
      by (simp_all add: rd_gpr_def)
    then show ?thesis using False
      by (simp add: fcode_def run_AddWord_sp mult.commute)
  qed
  from 1 [of s] obtain s1 where a: "run gcode s = Some s1"
    "rd_gpr s1 sp = rd_gpr s sp - of_int (kSystemPointerSize * int (fcard g))" by blast
  from 2 [of s1] obtain s2 where b: "run fcode s1 = Some s2"
    "rd_gpr s2 sp = rd_gpr s1 sp - of_int (kStackSlotSize * int (fcard f))" by blast
  show ?thesis
    unfolding code g_def [symmetric] f_def [symmetric] using a b by (simp add: run_append)
qed

lemma pop_sp:
  assumes "sp |\<notin>| G"
  shows "\<exists>s1. run (PopRegisters G F regs) s = Some s1
      \<and> rd_gpr s1 sp = rd_gpr s sp
           + of_int (sizeof_double * int (fcard (fp_set regs |\<inter>| F)))
           + of_int (kSystemPointerSize * int (fcard (gp_set regs |\<inter>| G)))"
proof -
  define g f where "g = gp_set regs |\<inter>| G" and "f = fp_set regs |\<inter>| F"
  define fadj where "fadj = (if snd (pop_fp_loop f 0) \<noteq> 0
                             then [AddWord sp sp (snd (pop_fp_loop f 0))] else [])"
  have code: "PopRegisters G F regs =
      fst (pop_fp_loop f 0) @ fadj @ fst (pop_gp_loop g 0) @ [AddWord sp sp (snd (pop_gp_loop g 0))]"
    by (simp add: PopRegisters_def g_def f_def fadj_def Let_def split_beta)
  have spg: "sp |\<notin>| g" using assms by (simp add: g_def)
  obtain s1 where a0: "run (fst (pop_fp_loop f 0)) s = Some s1" "gpr s1 = gpr s"
    using run_pop_fp_loop by blast
  then have a: "run (fst (pop_fp_loop f 0)) s = Some s1" "rd_gpr s1 sp = rd_gpr s sp"
    by (simp_all add: rd_gpr_def)
  have "\<exists>s2. run fadj s1 = Some s2
          \<and> rd_gpr s2 sp = rd_gpr s1 sp + of_int (snd (pop_fp_loop f 0))"
    by (simp add: fadj_def run_AddWord_sp)
  then obtain s2 where b: "run fadj s1 = Some s2"
    "rd_gpr s2 sp = rd_gpr s1 sp + of_int (snd (pop_fp_loop f 0))"
    by blast
  obtain s3 where c: "run (fst (pop_gp_loop g 0)) s2 = Some s3" "rd_gpr s3 sp = rd_gpr s2 sp"
    using run_pop_gp_loop [OF spg] by blast
  have r: "run (PopRegisters G F regs) s = Some (do_AddWord sp sp (snd (pop_gp_loop g 0)) s3)"
    unfolding code by (simp add: run_append a(1) b(1) c(1))
  have "rd_gpr (do_AddWord sp sp (snd (pop_gp_loop g 0)) s3) sp
        = rd_gpr s3 sp + of_int (snd (pop_gp_loop g 0))"
    by (rule run_AddWord_sp(2))
  also have "\<dots> = rd_gpr s sp + of_int (snd (pop_fp_loop f 0)) + of_int (snd (pop_gp_loop g 0))"
    by (simp only: a(2) b(2) c(2))
  finally have "rd_gpr (do_AddWord sp sp (snd (pop_gp_loop g 0)) s3) sp
        = rd_gpr s sp + of_int (sizeof_double * int (fcard f))
          + of_int (kSystemPointerSize * int (fcard g))"
    by (simp add: pop_fp_loop_offset pop_gp_loop_offset)
  with r show ?thesis unfolding g_def f_def by blast
qed

text \<open>
  C3.  For every register set (any mix of general and floating-point registers, either
  part possibly empty) the stack pointer displacement of the sequence of
  \<open>PushRegisters\<close> is the exact negative of the displacement of the sequence of
  \<open>PopRegisters\<close> on the same set, from whatever states the two start: 8 bytes for each
  register of the set that is a cache register.  So a save followed by the restore leaves
  the stack pointer where it was.  The stack pointer is not itself a cache register.
\<close>

theorem C3_push_pop_registers_balanced:
  assumes "sp |\<notin>| G"
  shows "\<exists>s1 t1. run (PushRegisters G F regs) s = Some s1
           \<and> run (PopRegisters G F regs) t = Some t1
           \<and> rd_gpr s1 sp - rd_gpr s sp = - (rd_gpr t1 sp - rd_gpr t sp)
           \<and> rd_gpr t1 sp - rd_gpr t sp
               = of_nat (8 * (fcard (gp_set regs |\<inter>| G) + fcard (fp_set regs |\<inter>| F)))
           \<and> (\<exists>u. run (PushRegisters G F regs @ PopRegisters G F regs) s = Some u
                  \<and> rd_gpr u sp = rd_gpr s sp)"
proof -
  obtain s1 where a: "run (PushRegisters G F regs) s = Some s1"
    "rd_gpr s1 sp = rd_gpr s sp
           - of_int (kSystemPointerSize * int (fcard (gp_set regs |\<inter>| G)))
           - of_int (kStackSlotSize * int (fcard (fp_set regs |\<inter>| F)))"
    using push_sp by blast
  obtain t1 where b: "run (PopRegisters G F regs) t = Some t1"
    "rd_gpr t1 sp = rd_gpr t sp
           + of_int (sizeof_double * int (fcard (fp_set regs |\<inter>| F)))
           + of_int (kSystemPointerSize * int (fcard (gp_set regs |\<inter>| G)))"
    using pop_sp [OF assms] by blast
  obtain u where c: "run (PopRegisters G F regs) s1 = Some u"
    "rd_gpr u sp = rd_gpr s1 sp
           + of_int (sizeof_double * int (fcard (fp_set regs |\<inter>| F)))
           + of_int (kSystemPointerSize * int (fcard (gp_set regs |\<inter>| G)))"
    using pop_sp [OF assms] by blast
  have "run (PushRegisters G F regs @ PopRegisters G F regs) s = Some u"
    by (simp add: run_append a(1) c(1))
  moreover have "rd_gpr u sp = rd_gpr s sp"
    by (simp add: c(2) a(2) kSystemPointerSize_def kStackSlotSize_def sizeof_double_def)
  moreover have "rd_gpr s1 sp - rd_gpr s sp = - (rd_gpr t1 sp - rd_gpr t sp)"
    by (simp add: a(2) b(2) kSystemPointerSize_def kStackSlotSize_def sizeof_double_def)
  moreover have "rd_gpr t1 sp - rd_gpr t sp
               = of_nat (8 * (fcard (gp_set regs |\<inter>| G) + fcard (fp_set regs |\<inter>| F)))"
    by (simp add: b(2) kSystemPointerSize_def sizeof_double_def algebra_simps)
  ultimately show ?thesis using a(1) b(1) by blast
qed

theorem C3_push_pop_registers_balanced_witness:
  "(\<exists>s1 t1. run (PushRegisters gp_cache_example fp_cache_example regs_mixed) machine0 = Some s1
       \<and> run (PopRegisters gp_cache_example fp_cache_example regs_mixed) machine0 = Some t1
       \<and> rd_gpr s1 sp - rd_gpr machine0 sp = - 24
       \<and> rd_gpr t1 sp - rd_gpr machine0 sp = 24)
   \<and> (\<exists>s1 t1. run (PushRegisters gp_cache_example fp_cache_example regs_gp_only) machine0 = Some s1
       \<and> run (PopRegisters gp_cache_example fp_cache_example regs_gp_only) machine0 = Some t1
       \<and> rd_gpr s1 sp - rd_gpr machine0 sp = - 24
       \<and> rd_gpr t1 sp - rd_gpr machine0 sp = 24)"
proof -
  have h: "sp |\<notin>| gp_cache_example" by (simp add: gp_cache_example_def sp_def)
  have n: "fcard (gp_set regs_mixed |\<inter>| gp_cache_example) = 2"
    "fcard (fp_set regs_mixed |\<inter>| fp_cache_example) = 1"
    "fcard (gp_set regs_gp_only |\<inter>| gp_cache_example) = 3"
    "fcard (fp_set regs_gp_only |\<inter>| fp_cache_example) = 0"
    by (simp_all add: regs_mixed_def regs_gp_only_def gp_cache_example_def fp_cache_example_def
          fcard_finsert_if)
  from C3_push_pop_registers_balanced [OF h, of fp_cache_example regs_mixed machine0 machine0]
  obtain s1 t1 where r1:
    "run (PushRegisters gp_cache_example fp_cache_example regs_mixed) machine0 = Some s1"
    "run (PopRegisters gp_cache_example fp_cache_example regs_mixed) machine0 = Some t1"
    and d1: "rd_gpr s1 sp - rd_gpr machine0 sp = - (rd_gpr t1 sp - rd_gpr machine0 sp)"
    "rd_gpr t1 sp - rd_gpr machine0 sp
       = of_nat (8 * (fcard (gp_set regs_mixed |\<inter>| gp_cache_example)
                      + fcard (fp_set regs_mixed |\<inter>| fp_cache_example)))"
    by blast
  from C3_push_pop_registers_balanced [OF h, of fp_cache_example regs_gp_only machine0 machine0]
  obtain s2 t2 where r2:
    "run (PushRegisters gp_cache_example fp_cache_example regs_gp_only) machine0 = Some s2"
    "run (PopRegisters gp_cache_example fp_cache_example regs_gp_only) machine0 = Some t2"
    and d2: "rd_gpr s2 sp - rd_gpr machine0 sp = - (rd_gpr t2 sp - rd_gpr machine0 sp)"
    "rd_gpr t2 sp - rd_gpr machine0 sp
       = of_nat (8 * (fcard (gp_set regs_gp_only |\<inter>| gp_cache_example)
                      + fcard (fp_set regs_gp_only |\<inter>| fp_cache_example)))"
    by blast
  have e1: "rd_gpr t1 sp - rd_gpr machine0 sp = 24" using d1(2) by (simp add: n)
  have e2: "rd_gpr t2 sp - rd_gpr machine0 sp = 24" using d2(2) by (simp add: n)
  have "rd_gpr s1 sp - rd_gpr machine0 sp = - 24" by (simp only: d1(1) e1)
  moreover have "rd_gpr s2 sp - rd_gpr machine0 sp = - 24" by (simp only: d2(1) e2)
  ultimately show ?thesis using r1 r2 e1 e2 by blast
qed

section \<open>Results: shifting the frame for a tail call\<close>












end
